theory Spec2Isabelle
  imports Complex_Main
begin

section \<open>Python values and errors\<close>

text \<open>
  Python floats are modelled as the real numbers: rounding, signed zero and NaN are not
  represented. Exceptions are values of \<open>py_error\<close>; a function that can raise returns
  \<open>py_error + 'a\<close> with \<open>Inl\<close> for the exception.
\<close>

datatype py_error =
    NameError string
  | AttributeError string
  | KeyError string
  | IndexError
  | ValueError
  | TypeError
  | RuntimeError string
  | Exception string

text \<open>Sequencing of computations that can raise.\<close>

definition bnd :: "'e + 'a \<Rightarrow> ('a \<Rightarrow> 'e + 'b) \<Rightarrow> 'e + 'b" where
  "bnd x f = (case x of Inl e \<Rightarrow> Inl e | Inr a \<Rightarrow> f a)"

section \<open>The solver interface (egret/common/solver\_interface.py)\<close>

text \<open>
  \<open>pyomo.opt.TerminationCondition\<close> is an enumeration of the pyomo library; its members
  are listed here as a datatype.
\<close>

datatype TerminationCondition =
    unknown
  | maxTimeLimit
  | maxIterations
  | minFunctionValue
  | minStepLength
  | globallyOptimal
  | locallyOptimal
  | feasible
  | optimal
  | maxEvaluations
  | other
  | unbounded
  | infeasible
  | infeasibleOrUnbounded
  | invalidProblem
  | intermediateNonInteger
  | noSolution
  | solverFailure
  | internalSolverError
  | error
  | userInterrupt
  | resourceInterrupt
  | licensingProblems

datatype optval = OptNum real | OptStr string

text \<open>
  An instantiated pyomo solver, as far as the interface reads and writes it: its name, its
  options and whether it is an instance of \<open>PersistentSolver\<close>; \<open>instance_set\<close> records a
  call of \<open>set_instance\<close>.
\<close>

record solver_obj =
  name :: string
  options :: "string \<rightharpoonup> optval"
  persistent :: bool
  instance_set :: bool

text \<open>The \<open>solver\<close> argument: a string, an instantiated solver, or any other object.\<close>

datatype solver_arg = SolverStr string | SolverObj solver_obj | SolverOther

record results =
  termination_condition :: TerminationCondition

text \<open>
  The external collaborators of the interface: \<open>SolverFactory\<close> and the solver's blocking
  \<open>solve\<close> call, which returns the model with the solution loaded and the results object.
  The third argument of \<open>ext_solve\<close> is \<open>tee\<close>, the fourth \<open>symbolic_solver_labels\<close>
  when it is passed.
\<close>

record 'm solver_ext =
  SolverFactory :: "string \<Rightarrow> solver_obj"
  ext_solve :: "solver_obj \<Rightarrow> 'm \<Rightarrow> bool \<Rightarrow> bool option \<Rightarrow> 'm \<times> results"

text \<open>Python's \<open>needle in haystack\<close> on strings.\<close>

fun py_in :: "string \<Rightarrow> string \<Rightarrow> bool" where
  "py_in p [] = (p = [])"
| "py_in p (c # cs) = (take (length p) (c # cs) = p \<or> py_in p cs)"

definition set_opt :: "string \<Rightarrow> real option \<Rightarrow> solver_obj \<Rightarrow> solver_obj" where
  "set_opt k v s = (case v of None \<Rightarrow> s | Some x \<Rightarrow> s\<lparr>options := (options s)(k \<mapsto> OptNum x)\<rparr>)"

text \<open>\<open>_set_options\<close> (the leading underscore is dropped).\<close>

definition set_options ::
  "solver_obj \<Rightarrow> real option \<Rightarrow> real option \<Rightarrow> (string \<times> optval) list option \<Rightarrow> solver_obj" where
  "set_options solver mipgap timelimit other_options =
     (let solver_name = name solver;
          solver1 =
            (if py_in ''gurobi'' solver_name then
               set_opt ''TimeLimit'' timelimit (set_opt ''MIPGap'' mipgap solver)
             else if py_in ''cplex'' solver_name then
               set_opt ''timelimit'' timelimit (set_opt ''mip_tolerances_mipgap'' mipgap solver)
             else if py_in ''glpk'' solver_name then
               set_opt ''tmlim'' timelimit (set_opt ''mipgap'' mipgap solver)
             else if py_in ''cbc'' solver_name then
               set_opt ''sec'' timelimit (set_opt ''ratioGap'' mipgap solver)
             else solver)
      in case other_options of
           None \<Rightarrow> solver1
         | Some opts \<Rightarrow> foldl (\<lambda>s (key, opt). s\<lparr>options := (options s)(key \<mapsto> opt)\<rparr>) solver1 opts)"

definition safe_termination_conditions :: "TerminationCondition list" where
  "safe_termination_conditions =
     [maxTimeLimit, maxIterations, minFunctionValue, minStepLength, globallyOptimal,
      locallyOptimal, feasible, optimal, maxEvaluations, other]"

text \<open>
  \<open>_solve_model\<close>. The module binds the names \<open>SolverFactory\<close>, \<open>TerminationCondition\<close> and
  \<open>PersistentSolver\<close> only, so evaluating \<open>pyomo.opt.base.OptSolver\<close> in the second test
  of the type check raises NameError. The message of the final exception reads the
  attribute \<open>terminataion_condition\<close>, which the results object does not have, so building
  the message raises AttributeError.
\<close>

definition solve_model ::
  "'m solver_ext \<Rightarrow> 'm \<Rightarrow> solver_arg \<Rightarrow> real option \<Rightarrow> real option \<Rightarrow> bool \<Rightarrow> bool \<Rightarrow>
   (string \<times> optval) list option \<Rightarrow> py_error + ('m \<times> results)" where
  "solve_model ext model solver mipgap timelimit solver_tee symbolic_solver_labels opts =
     (case solver of
        SolverStr s \<Rightarrow>
          (let solver1 = set_options (SolverFactory ext s) mipgap timelimit opts;
               (model', res) =
                 (if persistent solver1 then
                    ext_solve ext (solver1\<lparr>instance_set := True\<rparr>) model solver_tee None
                  else ext_solve ext solver1 model solver_tee (Some symbolic_solver_labels))
           in if termination_condition res \<notin> set safe_termination_conditions
              then Inl (AttributeError ''terminataion_condition'')
              else Inr (model', res))
      | _ \<Rightarrow> Inl (NameError ''pyomo''))"

text \<open>
  The blocking solve request that \<open>_solve_model\<close> issues for a solver given by name
  (lines 120 to 133): the solver from the factory, with its options set, called on the
  model.
\<close>

definition issued_solve ::
  "'m solver_ext \<Rightarrow> 'm \<Rightarrow> string \<Rightarrow> real option \<Rightarrow> real option \<Rightarrow> bool \<Rightarrow> bool \<Rightarrow>
   (string \<times> optval) list option \<Rightarrow> 'm \<times> results" where
  "issued_solve ext model s mipgap timelimit solver_tee symbolic_solver_labels opts =
     (let solver1 = set_options (SolverFactory ext s) mipgap timelimit opts
      in if persistent solver1 then
           ext_solve ext (solver1\<lparr>instance_set := True\<rparr>) model solver_tee None
         else ext_solve ext solver1 model solver_tee (Some symbolic_solver_labels))"

text \<open>The accepted set as the specification lists it.\<close>

definition spec_accepted :: "TerminationCondition list" where
  "spec_accepted =
     [optimal, locallyOptimal, globallyOptimal, feasible, maxTimeLimit, maxIterations,
      maxEvaluations, other]"

text \<open>A concrete external solver that always reports the given termination condition.\<close>

definition const_ext :: "TerminationCondition \<Rightarrow> unit solver_ext" where
  "const_ext tc =
     \<lparr>SolverFactory = (\<lambda>s. \<lparr>name = s, options = Map.empty, persistent = False, instance_set = False\<rparr>),
      ext_solve = (\<lambda>s m tee lab. (m, \<lparr>termination_condition = tc\<rparr>))\<rparr>"

section \<open>The model-attribute decorator (egret/model\_library/unit\_commitment/uc\_utils.py)\<close>

text \<open>
  A Python object is modelled by its attributes. An attribute value is a string (the
  decorator stores function names), an integer, a boolean or \<open>None\<close>.
\<close>

datatype pyval = PStr string | PInt int | PBool bool | PNone

type_synonym py_object = "string \<rightharpoonup> pyval"

text \<open>\<open>str(n)\<close> for a natural number: its decimal digits.\<close>

function str_nat :: "nat \<Rightarrow> string" where
  "str_nat n =
     (if n < 10 then [''0123456789'' ! n]
      else str_nat (n div 10) @ [''0123456789'' ! (n mod 10)])"
  by pat_completeness auto
termination
  by (relation "measure (\<lambda>n. n)") auto

text \<open>\<open>str(v)\<close>, as an f-string formats a value.\<close>

fun py_str :: "pyval \<Rightarrow> string" where
  "py_str (PStr s) = s"
| "py_str (PInt i) = (if i < 0 then ''-'' @ str_nat (nat (- i)) else str_nat (nat i))"
| "py_str (PBool b) = (if b then ''True'' else ''False'')"
| "py_str PNone = ''None''"

text \<open>\<open>sep.join(xs)\<close>.\<close>

fun join :: "string \<Rightarrow> string list \<Rightarrow> string" where
  "join sep [] = []"
| "join sep [x] = x"
| "join sep (x # y # ys) = x @ sep @ join sep (y # ys)"

text \<open>
  The loop over \<open>requires\<close>: the keys of the dictionary in order, each looked up in the
  dictionary again. \<open>None\<close> is returned when the loop ends without raising.
\<close>

fun check_requires ::
  "string \<Rightarrow> (string \<times> string list option) list \<Rightarrow> string list \<Rightarrow> py_object \<Rightarrow> py_error option" where
  "check_requires fname requires [] model = None"
| "check_requires fname requires (base_attr # rest) model =
     (case model base_attr of
        None \<Rightarrow>
          Some (Exception (''Exception adding '' @ fname @ ''! '' @ fname @ '' requires some '' @
                           base_attr @ '' to be added first!''))
      | Some v \<Rightarrow>
          (case map_of requires base_attr of
             None \<Rightarrow> Some (KeyError base_attr)
           | Some None \<Rightarrow> check_requires fname requires rest model
           | Some (Some allowed) \<Rightarrow>
               if v \<notin> PStr ` set allowed then
                 Some (Exception (''Exception adding '' @ fname @ ''! '' @ fname @
                                  '' requires one of: '' @ join '', '' allowed @
                                  '', to be added first.''))
               else check_requires fname requires rest model))"

text \<open>
  The body of \<open>wrapper\<close> up to the delegation: the positional arguments with the model
  tagged, or the exception raised. \<open>args[0]\<close> raises IndexError when no positional
  argument is passed.
\<close>

definition wrapper_pre ::
  "string \<Rightarrow> (string \<times> string list option) list \<Rightarrow> string \<Rightarrow> py_object list \<Rightarrow>
   py_error + py_object list" where
  "wrapper_pre attr requires fname args =
     (case args of
        [] \<Rightarrow> Inl IndexError
      | model # rest \<Rightarrow>
          (case model attr of
             Some v \<Rightarrow>
               Inl (Exception (''Exception adding '' @ fname @ ''! Model already has '' @ attr @
                               '' '' @ py_str v @ ''! You may only add one type of '' @ attr @ ''!''))
           | None \<Rightarrow>
               (case check_requires fname requires (map fst requires) model of
                  Some e \<Rightarrow> Inl e
                | None \<Rightarrow> Inr (model(attr \<mapsto> PStr fname) # rest))))"

text \<open>
  \<open>add_model_attr(attr, requires)(func)\<close>: the wrapper, called with positional arguments
  \<open>args\<close> and keyword arguments \<open>kwds\<close>. \<open>fname\<close> is \<open>func.__name__\<close>.
\<close>

definition add_model_attr ::
  "string \<Rightarrow> (string \<times> string list option) list \<Rightarrow> string \<Rightarrow>
   (py_object list \<Rightarrow> 'k \<Rightarrow> py_error + 'r) \<Rightarrow> py_object list \<Rightarrow> 'k \<Rightarrow> py_error + 'r" where
  "add_model_attr attr requires fname func args kwds =
     bnd (wrapper_pre attr requires fname args) (\<lambda>args'. func args' kwds)"

text \<open>
  The three conditions of rejection: the model already has the attribute, a required
  attribute is absent, or a required attribute with a list of allowed values has a value
  outside the list.
\<close>

definition rejected :: "string \<Rightarrow> (string \<times> string list option) list \<Rightarrow> py_object \<Rightarrow> bool" where
  "rejected attr requires model =
     (model attr \<noteq> None \<or>
      (\<exists>base_attr \<in> set (map fst requires).
         model base_attr = None \<or>
         (\<exists>v allowed. model base_attr = Some v \<and>
            map_of requires base_attr = Some (Some allowed) \<and> v \<notin> PStr ` set allowed)))"

text \<open>
  A wrapped function that returns at once, and a call that passes the model by keyword.
\<close>

definition ex_func :: "py_object list \<Rightarrow> (string \<rightharpoonup> py_object) \<Rightarrow> py_error + unit" where
  "ex_func args kwds = Inr ()"

definition ex_kwds :: "string \<rightharpoonup> py_object" where
  "ex_kwds = [''model'' \<mapsto> Map.empty]"

section \<open>The network snapshot and the sensitivity dictionaries (egret/data/data\_utils.py)\<close>

text \<open>
  A \<open>ModelData\<close> object holds a dictionary of system attributes and, for each element
  type, a dictionary from element names to attribute dictionaries. An attribute value is
  a number, a string or a row (a dictionary from names to numbers). The element
  dictionaries are association lists in iteration order; their names are distinct in
  Python, where they are the keys of a dictionary.
\<close>

datatype val = Num real | Str string | Row "string \<rightharpoonup> real"

type_synonym element = "string \<rightharpoonup> val"

type_synonym elements = "(string \<times> element) list"

record snapshot =
  system :: "string \<rightharpoonup> val"
  bus :: elements
  branch :: elements
  generator :: elements
  load :: elements
  shunt :: elements

datatype BasePointType = FLATSTART | SOLUTION

datatype ApproximationType = BTHETA | BTHETA_LOSSES | PTDF | PTDF_LOSSES

text \<open>A numpy matrix, read at \<open>[row, column]\<close>; the reads of the source are all in range.\<close>

type_synonym matrix = "nat \<Rightarrow> nat \<Rightarrow> real"

text \<open>
  The functions of this repository that are not under src/ are parameters of the model:
  \<open>clone_in_service\<close> of \<open>ModelData\<close> (the content of the clone), the per-unit scaling of
  \<open>tx_utils\<close>, the sensitivity calculations of \<open>tx_calc\<close>, the bus loads, the initial
  branch flows (lines 94 to 107 of dcopf\_losses.py, but the line of \<open>p_max\<close>), and the
  declarations of \<open>libbus\<close>, \<open>libbranch\<close> and \<open>libgen\<close> that add the feasibility slack,
  the constraints, the cost expressions and the objective to a model: their result is an
  opaque value of type \<open>'c\<close>. The first argument of \<open>library_part\<close> tells the angle-based
  builder (\<open>True\<close>) from the PTDF-based one, the second is \<open>include_feasibility_slack\<close>.
\<close>

record 'c tx_ext =
  in_service :: "snapshot \<Rightarrow> snapshot"
  scale_to_pu :: "snapshot \<Rightarrow> snapshot"
  unscale_to_pu :: "snapshot \<Rightarrow> snapshot"
  calculate_ptdf :: "snapshot \<Rightarrow> val \<Rightarrow> BasePointType \<Rightarrow> matrix"
  calculate_ptdf_ldf :: "snapshot \<Rightarrow> val \<Rightarrow> BasePointType \<Rightarrow> matrix \<times> matrix \<times> (nat \<Rightarrow> real)"
  calculate_phi_constant :: "snapshot \<Rightarrow> ApproximationType \<Rightarrow> matrix \<times> matrix"
  calculate_phi_loss_constant :: "snapshot \<Rightarrow> ApproximationType \<Rightarrow> matrix \<times> matrix"
  dict_of_bus_loads :: "snapshot \<Rightarrow> (string \<rightharpoonup> real)"
  pf_init_of :: "snapshot \<Rightarrow> py_error + (string \<rightharpoonup> real)"
  library_part :: "bool \<Rightarrow> bool \<Rightarrow> snapshot \<Rightarrow> py_error + 'c"

text \<open>\<open>d[k1] = v1; d[k2] = v2; ...\<close>: assignments to a dictionary, in order.\<close>

definition assign_items :: "('k \<rightharpoonup> 'v) \<Rightarrow> ('k \<times> 'v) list \<Rightarrow> ('k \<rightharpoonup> 'v)" where
  "assign_items d kvs = foldl (\<lambda>m (k, v). m(k \<mapsto> v)) d kvs"

text \<open>A dictionary comprehension: the pairs are stored in order, a later key overwrites.\<close>

definition dict_comp :: "(string \<times> 'v) list \<Rightarrow> (string \<rightharpoonup> 'v)" where
  "dict_comp kvs = assign_items Map.empty kvs"

text \<open>\<open>{names[i]: M[idx, i] for i in range(len(names))}\<close>\<close>

definition dense_row :: "string list \<Rightarrow> matrix \<Rightarrow> nat \<Rightarrow> (string \<rightharpoonup> real)" where
  "dense_row names M idx = dict_comp (map (\<lambda>i. (names ! i, M idx i)) [0..<length names])"

text \<open>\<open>{names[i]: M[idx, i] for i in range(len(names)) if M[idx, i] != 0.}\<close>\<close>

definition sparse_row :: "string list \<Rightarrow> matrix \<Rightarrow> nat \<Rightarrow> (string \<rightharpoonup> real)" where
  "sparse_row names M idx =
     dict_comp (map (\<lambda>i. (names ! i, M idx i)) (filter (\<lambda>i. M idx i \<noteq> 0) [0..<length names]))"

text \<open>
  \<open>e = elements[nm]; e[k1] = v1; e[k2] = v2; ...\<close>: the assignments to the attribute
  dictionary of the element named \<open>nm\<close>.
\<close>

definition set_items :: "string \<Rightarrow> (string \<times> val) list \<Rightarrow> elements \<Rightarrow> elements" where
  "set_items nm kvs elems =
     map (\<lambda>(n, d). if n = nm then (n, assign_items d kvs) else (n, d)) elems"

definition create_dicts_of_ptdf :: "'c tx_ext \<Rightarrow> snapshot \<Rightarrow> BasePointType \<Rightarrow> py_error + snapshot" where
  "create_dicts_of_ptdf tx md base_point =
     (case system md ''reference_bus'' of
        None \<Rightarrow> Inl (KeyError ''reference_bus'')
      | Some reference_bus \<Rightarrow>
          (let ptdf = calculate_ptdf tx md reference_bus base_point;
               (phi_from, phi_to) = calculate_phi_constant tx md PTDF;
               branch_names = map fst (branch md);
               bus_names = map fst (bus md);
               branches' =
                 foldl (\<lambda>bs idx. set_items (branch_names ! idx)
                                   [(''ptdf'', Row (dense_row bus_names ptdf idx))] bs)
                   (branch md) [0..<length branch_names];
               buses' =
                 foldl (\<lambda>bs idx. set_items (bus_names ! idx)
                                   [(''phi_from'', Row (sparse_row branch_names phi_from idx)),
                                    (''phi_to'', Row (sparse_row branch_names phi_to idx))] bs)
                   (bus md) [0..<length bus_names]
           in Inr (md\<lparr>bus := buses', branch := branches'\<rparr>)))"

definition create_dicts_of_ptdf_losses ::
  "'c tx_ext \<Rightarrow> snapshot \<Rightarrow> BasePointType \<Rightarrow> py_error + snapshot" where
  "create_dicts_of_ptdf_losses tx md base_point =
     (case system md ''reference_bus'' of
        None \<Rightarrow> Inl (KeyError ''reference_bus'')
      | Some reference_bus \<Rightarrow>
          (let (ptdf_r, ldf, ldf_c) = calculate_ptdf_ldf tx md reference_bus base_point;
               (phi_from, phi_to) = calculate_phi_constant tx md PTDF_LOSSES;
               (phi_loss_from, phi_loss_to) = calculate_phi_loss_constant tx md PTDF_LOSSES;
               branch_names = map fst (branch md);
               bus_names = map fst (bus md);
               branches' =
                 foldl (\<lambda>bs idx. set_items (branch_names ! idx)
                                   [(''ptdf_r'', Row (dense_row bus_names ptdf_r idx)),
                                    (''ldf'', Row (dense_row bus_names ldf idx)),
                                    (''ldf_c'', Num (ldf_c idx))] bs)
                   (branch md) [0..<length branch_names];
               buses' =
                 foldl (\<lambda>bs idx. set_items (bus_names ! idx)
                                   [(''phi_from'', Row (sparse_row branch_names phi_from idx)),
                                    (''phi_to'', Row (sparse_row branch_names phi_to idx)),
                                    (''phi_loss_from'', Row (sparse_row branch_names phi_loss_from idx)),
                                    (''phi_loss_to'', Row (sparse_row branch_names phi_loss_to idx))] bs)
                   (bus md) [0..<length bus_names]
           in Inr (md\<lparr>bus := buses', branch := branches'\<rparr>)))"

text \<open>The entry at key \<open>k\<close> of the row stored under \<open>field\<close> in an attribute dictionary.\<close>

definition row_entry :: "element \<Rightarrow> string \<Rightarrow> string \<Rightarrow> real option" where
  "row_entry d field k = (case d field of Some (Row r) \<Rightarrow> r k | _ \<Rightarrow> None)"

text \<open>The entries at key \<open>k\<close> of the rows stored under \<open>field\<close>, for every branch and bus.\<close>

definition branch_entries :: "snapshot \<Rightarrow> string \<Rightarrow> string \<Rightarrow> (string \<times> real option) list" where
  "branch_entries md field k = map (\<lambda>(n, d). (n, row_entry d field k)) (branch md)"

definition bus_entries :: "snapshot \<Rightarrow> string \<Rightarrow> string \<Rightarrow> (string \<times> real option) list" where
  "bus_entries md field k = map (\<lambda>(n, d). (n, row_entry d field k)) (bus md)"

section \<open>The optimization model and the declaration helper (egret/model\_library/decl.py)\<close>

text \<open>
  A pyomo variable: its value, its bounds and whether it is fixed. A model holds named
  components (index sets and indexed variables), the part that the library declarations
  add (of the opaque type \<open>'c\<close>), the value of the objective and the \<open>dual\<close> suffix, which
  maps a constraint (its name and, for an indexed constraint, the index) to its dual. The
  objective has no value before a solve.
\<close>

record pvar =
  pv :: "real option"
  lb :: "real option"
  ub :: "real option"
  fixed :: bool

datatype component = IndexSet "string list" | Var "string \<rightharpoonup> pvar"

record 'c pmodel =
  components :: "string \<rightharpoonup> component"
  library :: "'c option"
  obj_value :: "real option"
  dual :: "string \<times> string option \<rightharpoonup> real"

definition ConcreteModel :: "'c pmodel" where
  "ConcreteModel = \<lparr>components = Map.empty, library = None, obj_value = None, dual = Map.empty\<rparr>"

text \<open>\<open>model.add_component(name, c)\<close>: pyomo refuses a name that the model already has.\<close>

definition add_component :: "string \<Rightarrow> component \<Rightarrow> 'c pmodel \<Rightarrow> py_error + 'c pmodel" where
  "add_component cname c model =
     (if components model cname \<noteq> None then Inl (RuntimeError cname)
      else Inr (model\<lparr>components := (components model)(cname \<mapsto> c)\<rparr>))"

text \<open>
  The keyword arguments that the builders pass to a variable declaration: \<open>initialize\<close>, a
  dictionary of initial values, and \<open>bounds\<close>, a dictionary of pairs.
\<close>

record var_kwargs =
  initialize :: "(string \<rightharpoonup> real) option"
  bounds :: "(string \<rightharpoonup> real \<times> real) option"

text \<open>
  The construction of \<open>pe.Var(index_set, **kwargs)\<close>: one variable for each index; its
  bounds come from the rule \<open>lambda m, k: (d[k][0], d[k][1])\<close> that \<open>declare_var\<close> makes
  of the dictionary \<open>d\<close> of bounds, which raises KeyError at an index that \<open>d\<close> lacks.
\<close>

fun make_vars :: "var_kwargs \<Rightarrow> string list \<Rightarrow> py_error + (string \<rightharpoonup> pvar)" where
  "make_vars kw [] = Inr Map.empty"
| "make_vars kw (k # ks) =
     bnd (case bounds kw of
            None \<Rightarrow> Inr (None, None)
          | Some d \<Rightarrow> (case d k of None \<Rightarrow> Inl (KeyError k) | Some (l, u) \<Rightarrow> Inr (Some l, Some u)))
       (\<lambda>(l, u). bnd (make_vars kw ks)
          (\<lambda>vars. Inr (vars(k \<mapsto> \<lparr>pv = (case initialize kw of None \<Rightarrow> None | Some i \<Rightarrow> i k),
                                   lb = l, ub = u, fixed = False\<rparr>))))"

text \<open>
  \<open>declare_var(varname, model, index_set, **kwargs)\<close>, for an index set that is not
  \<open>None\<close> (the builders pass one at every call).
\<close>

definition declare_var ::
  "string \<Rightarrow> 'c pmodel \<Rightarrow> string list \<Rightarrow> var_kwargs \<Rightarrow> py_error + 'c pmodel" where
  "declare_var varname model index_set kw =
     bnd (add_component (''_var_'' @ varname @ ''_index_set'') (IndexSet index_set) model)
       (\<lambda>model1. bnd (make_vars kw index_set)
          (\<lambda>vars. add_component varname (Var vars) model1))"

text \<open>\<open>model.<varname>.fix()\<close>: every variable of the component is fixed at its value.\<close>

definition fix_all :: "string \<Rightarrow> 'c pmodel \<Rightarrow> py_error + 'c pmodel" where
  "fix_all varname model =
     (case components model varname of
        Some (Var vars) \<Rightarrow>
          Inr (model\<lparr>components := (components model)
                 (varname \<mapsto> Var (\<lambda>k. map_option (\<lambda>v. v\<lparr>fixed := True\<rparr>) (vars k)))\<rparr>)
      | _ \<Rightarrow> Inl (AttributeError varname))"

text \<open>\<open>model.<varname>[k]\<close>\<close>

definition get_var :: "'c pmodel \<Rightarrow> string \<Rightarrow> string \<Rightarrow> py_error + pvar" where
  "get_var model varname k =
     (case components model varname of
        Some (Var vars) \<Rightarrow> (case vars k of None \<Rightarrow> Inl (KeyError k) | Some v \<Rightarrow> Inr v)
      | _ \<Rightarrow> Inl (AttributeError varname))"

text \<open>\<open>model.<varname>[k].fix(x)\<close>\<close>

definition fix_var :: "string \<Rightarrow> string \<Rightarrow> real \<Rightarrow> 'c pmodel \<Rightarrow> py_error + 'c pmodel" where
  "fix_var varname k x model =
     (case components model varname of
        Some (Var vars) \<Rightarrow>
          (case vars k of
             None \<Rightarrow> Inl (KeyError k)
           | Some v \<Rightarrow>
               Inr (model\<lparr>components := (components model)
                      (varname \<mapsto> Var (vars(k \<mapsto> v\<lparr>pv := Some x, fixed := True\<rparr>)))\<rparr>))
      | _ \<Rightarrow> Inl (AttributeError varname))"

text \<open>\<open>value(model.<varname>[k])\<close>: a variable without a value raises ValueError.\<close>

definition var_value :: "'c pmodel \<Rightarrow> string \<Rightarrow> string \<Rightarrow> py_error + real" where
  "var_value model varname k =
     bnd (get_var model varname k)
       (\<lambda>v. case pv v of None \<Rightarrow> Inl ValueError | Some x \<Rightarrow> Inr x)"

text \<open>\<open>value(model.dual[c])\<close>\<close>

definition dual_value :: "'c pmodel \<Rightarrow> string \<times> string option \<Rightarrow> py_error + real" where
  "dual_value model c = (case dual model c of None \<Rightarrow> Inl (KeyError (fst c)) | Some x \<Rightarrow> Inr x)"

section \<open>The model builders and the solve driver (egret/models/dcopf\_losses.py)\<close>

subsection \<open>Reading the snapshot\<close>

text \<open>\<open>d[k]\<close> on a dictionary.\<close>

definition get_item :: "(string \<rightharpoonup> 'a) \<Rightarrow> string \<Rightarrow> py_error + 'a" where
  "get_item d k = (case d k of None \<Rightarrow> Inl (KeyError k) | Some v \<Rightarrow> Inr v)"

text \<open>A value used as a number.\<close>

definition num :: "val \<Rightarrow> py_error + real" where
  "num v = (case v of Num x \<Rightarrow> Inr x | _ \<Rightarrow> Inl TypeError)"

text \<open>
  Modelled from the spec: \<open>ModelData.attributes\<close> is not under src/; the specification
  describes it as the per-category attribute lookup by name. \<open>attrs[key]\<close> is the
  dictionary from the names of the elements that have the attribute \<open>key\<close> to its values,
  and is absent when no element has it.
\<close>

definition attr_items :: "elements \<Rightarrow> string \<Rightarrow> py_error + (string \<times> val) list" where
  "attr_items elems key =
     (let kvs = List.map_filter (\<lambda>(n, d). map_option (Pair n) (d key)) elems
      in if kvs = [] then Inl (KeyError key) else Inr kvs)"

text \<open>The numbers of a dictionary of values, as \<open>initialize\<close> reads them.\<close>

definition num_map :: "(string \<times> val) list \<Rightarrow> (string \<rightharpoonup> real)" where
  "num_map kvs k = (case map_of kvs k of Some (Num x) \<Rightarrow> Some x | _ \<Rightarrow> None)"

definition radians :: "real \<Rightarrow> real" where
  "radians x = x * pi / 180"

subsection \<open>The variable declarations of the builders\<close>

text \<open>
  Modelled from the spec: the declarations \<open>declare_var_pl\<close>, \<open>declare_var_va\<close>,
  \<open>declare_var_dva\<close>, \<open>declare_var_pg\<close>, \<open>declare_var_pf\<close> and \<open>declare_var_pfl\<close> of
  \<open>libbus\<close>, \<open>libbranch\<close> and \<open>libgen\<close> are not under src/; the specification describes
  them as registration helpers that merely attach named arrays into a model container:
  each is \<open>declare_var\<close> with the name of the variable.
\<close>

definition declare_var_pl :: "'c pmodel \<Rightarrow> string list \<Rightarrow> var_kwargs \<Rightarrow> py_error + 'c pmodel" where
  "declare_var_pl model index_set kw = declare_var ''pl'' model index_set kw"

definition declare_var_va :: "'c pmodel \<Rightarrow> string list \<Rightarrow> var_kwargs \<Rightarrow> py_error + 'c pmodel" where
  "declare_var_va model index_set kw = declare_var ''va'' model index_set kw"

definition declare_var_dva :: "'c pmodel \<Rightarrow> string list \<Rightarrow> var_kwargs \<Rightarrow> py_error + 'c pmodel" where
  "declare_var_dva model index_set kw = declare_var ''dva'' model index_set kw"

definition declare_var_pg :: "'c pmodel \<Rightarrow> string list \<Rightarrow> var_kwargs \<Rightarrow> py_error + 'c pmodel" where
  "declare_var_pg model index_set kw = declare_var ''pg'' model index_set kw"

definition declare_var_pf :: "'c pmodel \<Rightarrow> string list \<Rightarrow> var_kwargs \<Rightarrow> py_error + 'c pmodel" where
  "declare_var_pf model index_set kw = declare_var ''pf'' model index_set kw"

definition declare_var_pfl :: "'c pmodel \<Rightarrow> string list \<Rightarrow> var_kwargs \<Rightarrow> py_error + 'c pmodel" where
  "declare_var_pfl model index_set kw = declare_var ''pfl'' model index_set kw"

text \<open>Lines 57 to 60 and 211 to 214: the loads at the buses, declared and fixed.\<close>

definition declare_loads :: "'c tx_ext \<Rightarrow> snapshot \<Rightarrow> 'c pmodel \<Rightarrow> py_error + 'c pmodel" where
  "declare_loads tx md model =
     bnd (declare_var_pl model (map fst (bus md))
            \<lparr>initialize = Some (dict_of_bus_loads tx md), bounds = None\<rparr>)
       (fix_all ''pl'')"

text \<open>Lines 66 to 69: the voltage angles, bounded by \<open>(-pi, pi)\<close> at the keys of \<open>bus_attrs['va']\<close>.\<close>

definition declare_angles :: "snapshot \<Rightarrow> 'c pmodel \<Rightarrow> py_error + 'c pmodel" where
  "declare_angles md model =
     bnd (attr_items (bus md) ''va'')
       (\<lambda>bus_va. declare_var_va model (map fst (bus md))
          \<lparr>initialize = Some (num_map bus_va),
           bounds = Some (map_of (map (\<lambda>(k, v). (k, (- pi, pi))) bus_va))\<rparr>)"

text \<open>Lines 71 to 74.\<close>

definition declare_angle_differences :: "snapshot \<Rightarrow> 'c pmodel \<Rightarrow> py_error + 'c pmodel" where
  "declare_angle_differences md model =
     declare_var_dva model (map fst (branch md))
       \<lparr>initialize = Some (map_of (map (\<lambda>k. (k, 0)) (map fst (branch md)))), bounds = None\<rparr>"

text \<open>Lines 83 to 85: the reference bus is fixed at \<open>radians(ref_angle)\<close>.\<close>

definition fix_reference_bus :: "snapshot \<Rightarrow> 'c pmodel \<Rightarrow> py_error + 'c pmodel" where
  "fix_reference_bus md model =
     bnd (get_item (system md) ''reference_bus'')
       (\<lambda>ref_bus. bnd (get_item (system md) ''reference_bus_angle'')
          (\<lambda>ref_angle.
             case ref_bus of
               Str b \<Rightarrow> bnd (get_var model ''va'' b)
                          (\<lambda>_. bnd (num ref_angle) (\<lambda>a. fix_var ''va'' b (radians a) model))
             | _ \<Rightarrow> Inl (KeyError ''reference_bus'')))"

text \<open>
  Lines 88 to 91 and 220 to 223. \<open>pg_init\<close> is the comprehension over the keys of
  \<open>gen_attrs['pg']\<close>. Modelled from the spec: \<open>zip_items\<close> of \<open>model_data\<close> is not under
  src/; the specification says that the generator's real power is bounded by its min and
  max, so it pairs, at every key of the first dictionary, the values of both.
\<close>

fun pg_init_of :: "string list \<Rightarrow> (string \<rightharpoonup> val) \<Rightarrow> (string \<rightharpoonup> val) \<Rightarrow> py_error + (string \<times> real) list" where
  "pg_init_of [] p_min p_max = Inr []"
| "pg_init_of (k # ks) p_min p_max =
     bnd (get_item p_min k) (\<lambda>a. bnd (num a) (\<lambda>a. bnd (get_item p_max k) (\<lambda>b. bnd (num b)
       (\<lambda>b. bnd (pg_init_of ks p_min p_max) (\<lambda>rest. Inr ((k, (a + b) / 2) # rest))))))"

fun zip_items :: "(string \<times> val) list \<Rightarrow> (string \<rightharpoonup> val) \<Rightarrow> py_error + (string \<times> real \<times> real) list" where
  "zip_items [] d2 = Inr []"
| "zip_items ((k, a) # kvs) d2 =
     bnd (num a) (\<lambda>a. bnd (get_item d2 k) (\<lambda>b. bnd (num b)
       (\<lambda>b. bnd (zip_items kvs d2) (\<lambda>rest. Inr ((k, (a, b)) # rest)))))"

definition declare_generation :: "snapshot \<Rightarrow> 'c pmodel \<Rightarrow> py_error + 'c pmodel" where
  "declare_generation md model =
     bnd (attr_items (generator md) ''pg'') (\<lambda>pg.
     bnd (attr_items (generator md) ''p_min'') (\<lambda>p_min.
     bnd (attr_items (generator md) ''p_max'') (\<lambda>p_max.
     bnd (pg_init_of (map fst pg) (map_of p_min) (map_of p_max)) (\<lambda>pg_init.
     bnd (zip_items p_min (map_of p_max)) (\<lambda>pg_bounds.
       declare_var_pg model (map fst (generator md))
         \<lparr>initialize = Some (map_of pg_init), bounds = Some (map_of pg_bounds)\<rparr>)))))"

text \<open>
  Lines 94 to 121 and 231 to 258: \<open>p_max\<close> is the long-term rating of every branch; the
  flow is bounded by \<open>(-p_max, p_max)\<close>, the loss by \<open>(lo, p_max ** 2)\<close> where \<open>lo\<close> is
  \<open>0\<close> in the angle-based builder and \<open>-p_max ** 2\<close> in the PTDF-based one.
\<close>

fun ratings :: "elements \<Rightarrow> py_error + (string \<times> real) list" where
  "ratings [] = Inr []"
| "ratings ((k, d) # ks) =
     bnd (get_item d ''rating_long_term'') (\<lambda>r. bnd (num r)
       (\<lambda>r. bnd (ratings ks) (\<lambda>rest. Inr ((k, r) # rest))))"

definition declare_flows :: "'c tx_ext \<Rightarrow> bool \<Rightarrow> snapshot \<Rightarrow> 'c pmodel \<Rightarrow> py_error + 'c pmodel" where
  "declare_flows tx angle_based md model =
     bnd (ratings (branch md)) (\<lambda>p_max.
     bnd (pf_init_of tx md) (\<lambda>pf_init.
     bnd (declare_var_pf model (map fst (branch md))
            \<lparr>initialize = Some pf_init,
             bounds = Some (map_of (map (\<lambda>(k, p). (k, (- p, p))) p_max))\<rparr>) (\<lambda>model1.
       declare_var_pfl model1 (map fst (branch md))
         \<lparr>initialize = Some (map_of (map (\<lambda>(k, p). (k, 0)) p_max)),
          bounds = Some (map_of (map (\<lambda>(k, p). (k, ((if angle_based then 0 else - (p ^ 2)), p ^ 2)))
                                   p_max))\<rparr>)))"

text \<open>
  The feasibility slack, the constraints, the cost expressions and the objective are
  declared by the library; they are added to the model after its variables (the
  angle-based builder declares the slack before it fixes the reference bus).
\<close>

definition declare_library :: "'c tx_ext \<Rightarrow> bool \<Rightarrow> bool \<Rightarrow> snapshot \<Rightarrow> 'c pmodel \<Rightarrow> py_error + 'c pmodel" where
  "declare_library tx angle_based include_feasibility_slack md model =
     bnd (library_part tx angle_based include_feasibility_slack md)
       (\<lambda>c. Inr (model\<lparr>library := Some c\<rparr>))"

text \<open>The model that the angle-based builder makes of the scaled clone (lines 38 to 181).\<close>

definition btheta_losses_model :: "'c tx_ext \<Rightarrow> bool \<Rightarrow> snapshot \<Rightarrow> py_error + 'c pmodel" where
  "btheta_losses_model tx include_feasibility_slack md =
     bnd (declare_loads tx md ConcreteModel) (\<lambda>m1.
     bnd (declare_angles md m1) (\<lambda>m2.
     bnd (declare_angle_differences md m2) (\<lambda>m3.
     bnd (fix_reference_bus md m3) (\<lambda>m4.
     bnd (declare_generation md m4) (\<lambda>m5.
     bnd (declare_flows tx True md m5) (\<lambda>m6.
       declare_library tx True include_feasibility_slack md m6))))))"

text \<open>
  The model that the PTDF-based builder makes of the scaled clone with its sensitivity
  dictionaries (lines 192 to 309).
\<close>

definition ptdf_losses_model :: "'c tx_ext \<Rightarrow> bool \<Rightarrow> snapshot \<Rightarrow> py_error + 'c pmodel" where
  "ptdf_losses_model tx include_feasibility_slack md =
     bnd (declare_loads tx md ConcreteModel) (\<lambda>m1.
     bnd (declare_generation md m1) (\<lambda>m2.
     bnd (declare_flows tx False md m2) (\<lambda>m3.
       declare_library tx False include_feasibility_slack md m3)))"

subsection \<open>The builders on the store of snapshots\<close>

text \<open>
  \<open>ModelData\<close> objects live in a store; an object is named by its address, an index of
  the store. Modelled from the spec: \<open>clone_in_service\<close> is not under src/; the
  specification says that the snapshot is cloned before model formulation, so the clone is
  a new object of the store, whose content the external function \<open>in_service\<close> gives.
  \<open>scale_ModelData_to_pu(md, inplace = True)\<close> and \<open>create_dicts_of_ptdf_losses(md)\<close>
  write the object \<open>md\<close>.
\<close>

type_synonym store = "snapshot list"

definition clone_in_service :: "'c tx_ext \<Rightarrow> store \<Rightarrow> nat \<Rightarrow> nat \<times> store" where
  "clone_in_service tx h model_data = (length h, h @ [in_service tx (h ! model_data)])"

definition create_btheta_losses_dcopf_model ::
  "'c tx_ext \<Rightarrow> store \<Rightarrow> nat \<Rightarrow> bool \<Rightarrow> (py_error + 'c pmodel \<times> nat) \<times> store" where
  "create_btheta_losses_dcopf_model tx h model_data include_feasibility_slack =
     (let (md, h1) = clone_in_service tx h model_data;
          h2 = h1[md := scale_to_pu tx (h1 ! md)]
      in case btheta_losses_model tx include_feasibility_slack (h2 ! md) of
           Inl e \<Rightarrow> (Inl e, h2)
         | Inr model \<Rightarrow> (Inr (model, md), h2))"

definition create_ptdf_losses_dcopf_model ::
  "'c tx_ext \<Rightarrow> store \<Rightarrow> nat \<Rightarrow> bool \<Rightarrow> (py_error + 'c pmodel \<times> nat) \<times> store" where
  "create_ptdf_losses_dcopf_model tx h model_data include_feasibility_slack =
     (let (md, h1) = clone_in_service tx h model_data;
          h2 = h1[md := scale_to_pu tx (h1 ! md)]
      in case create_dicts_of_ptdf_losses tx (h2 ! md) SOLUTION of
           Inl e \<Rightarrow> (Inl e, h2)
         | Inr md' \<Rightarrow>
             (let h3 = h2[md := md']
              in case ptdf_losses_model tx include_feasibility_slack (h3 ! md) of
                   Inl e \<Rightarrow> (Inl e, h3)
                 | Inr model \<Rightarrow> (Inr (model, md), h3)))"

subsection \<open>The extraction of the results and the solve driver\<close>

text \<open>
  The argument \<open>dcopf_losses_model_generator\<close>: one of the two builders, or another
  function. The driver compares it with the two builders.
\<close>

datatype 'c model_generator =
    Btheta_losses
  | Ptdf_losses
  | Other_generator "store \<Rightarrow> nat \<Rightarrow> bool \<Rightarrow> (py_error + 'c pmodel \<times> nat) \<times> store"

definition run_generator ::
  "'c tx_ext \<Rightarrow> 'c model_generator \<Rightarrow> store \<Rightarrow> nat \<Rightarrow> bool \<Rightarrow> (py_error + 'c pmodel \<times> nat) \<times> store" where
  "run_generator tx gen h model_data include_feasibility_slack =
     (case gen of
        Btheta_losses \<Rightarrow> create_btheta_losses_dcopf_model tx h model_data include_feasibility_slack
      | Ptdf_losses \<Rightarrow> create_ptdf_losses_dcopf_model tx h model_data include_feasibility_slack
      | Other_generator f \<Rightarrow> f h model_data include_feasibility_slack)"

text \<open>A loop over the items of a dictionary of elements that assigns to each element.\<close>

fun for_items :: "(string \<Rightarrow> element \<Rightarrow> py_error + element) \<Rightarrow> elements \<Rightarrow> py_error + elements" where
  "for_items f [] = Inr []"
| "for_items f ((n, d) # rest) =
     bnd (f n d) (\<lambda>d'. bnd (for_items f rest) (\<lambda>rest'. Inr ((n, d') # rest')))"

text \<open>\<open>k_dict[field][b]\<close>\<close>

definition row_item :: "element \<Rightarrow> string \<Rightarrow> string \<Rightarrow> py_error + real" where
  "row_item k_dict field b =
     bnd (get_item k_dict field)
       (\<lambda>r. case r of Row row \<Rightarrow> get_item row b | _ \<Rightarrow> Inl TypeError)"

text \<open>Lines 383 to 385: the loop over the branches that adds to \<open>b_dict['lmp']\<close>.\<close>

fun lmp_loop :: "'c pmodel \<Rightarrow> string \<Rightarrow> elements \<Rightarrow> real \<Rightarrow> py_error + real" where
  "lmp_loop m b [] lmp = Inr lmp"
| "lmp_loop m b ((k, k_dict) # rest) lmp =
     bnd (row_item k_dict ''ptdf_r'' b) (\<lambda>p.
     bnd (dual_value m (''eq_pf_branch'', Some k)) (\<lambda>dp.
     bnd (row_item k_dict ''ldf'' b) (\<lambda>l.
     bnd (dual_value m (''eq_pfl_branch'', Some k)) (\<lambda>dl.
       lmp_loop m b rest (lmp + p * dp + l * dl)))))"

text \<open>Lines 376 to 385: the body of the loop over the buses.\<close>

definition save_bus ::
  "'c model_generator \<Rightarrow> 'c pmodel \<Rightarrow> elements \<Rightarrow> string \<Rightarrow> element \<Rightarrow> py_error + element" where
  "save_bus gen m branches b b_dict =
     bnd (var_value m ''pl'' b) (\<lambda>pl.
     let b_dict1 = (b_dict(''pl'' \<mapsto> Num pl))(''qlmp'' := None)
     in bnd (case gen of
               Btheta_losses \<Rightarrow>
                 bnd (dual_value m (''eq_p_balance'', Some b)) (\<lambda>lmp.
                 bnd (var_value m ''va'' b) (\<lambda>va.
                   Inr (b_dict1(''lmp'' \<mapsto> Num lmp, ''va'' \<mapsto> Num va))))
             | _ \<Rightarrow> Inr b_dict1) (\<lambda>b_dict2.
          case gen of
            Ptdf_losses \<Rightarrow>
              bnd (dual_value m (''eq_p_balance'', None)) (\<lambda>lmp0.
              bnd (lmp_loop m b branches lmp0) (\<lambda>lmp. Inr (b_dict2(''lmp'' \<mapsto> Num lmp))))
          | _ \<Rightarrow> Inr b_dict2))"

text \<open>\<open>e_dict[key] = value(m.<varname>[k])\<close>\<close>

definition assign_value :: "'c pmodel \<Rightarrow> string \<Rightarrow> string \<Rightarrow> string \<Rightarrow> element \<Rightarrow> py_error + element" where
  "assign_value m varname key k e_dict =
     bnd (var_value m varname k) (\<lambda>x. Inr (e_dict(key \<mapsto> Num x)))"

text \<open>
  Lines 366 to 388: the results are written into the snapshot \<open>md\<close>. When a read of the
  solved model raises, the exception leaves the driver and the snapshot, partly written,
  is not returned.
\<close>

definition save_results :: "'c model_generator \<Rightarrow> 'c pmodel \<Rightarrow> snapshot \<Rightarrow> py_error + snapshot" where
  "save_results gen m md =
     bnd (case obj_value m of None \<Rightarrow> Inl ValueError | Some c \<Rightarrow> Inr c) (\<lambda>total_cost.
     bnd (for_items (assign_value m ''pg'' ''pg'') (generator md)) (\<lambda>gens.
     bnd (for_items (save_bus gen m (branch md)) (bus md)) (\<lambda>buses.
     bnd (for_items (assign_value m ''pf'' ''pf'') (branch md)) (\<lambda>branches.
       Inr (md\<lparr>system := (system md)(''total_cost'' \<mapsto> Num total_cost),
               generator := gens, bus := buses, branch := branches\<rparr>)))))"

text \<open>
  \<open>solve_dcopf_losses\<close>. The keyword arguments for the builder are
  \<open>include_feasibility_slack\<close>; \<open>_solve_model\<close> is called without \<open>mipgap\<close>, so with
  its default \<open>0.001\<close>. The result is the address of the snapshot with, according to
  \<open>return_model\<close> and \<open>return_results\<close>, the model and the results; the store is
  returned beside it. After an exception the store is the one that the builder left.
\<close>

definition solve_dcopf_losses ::
  "'c tx_ext \<Rightarrow> 'c pmodel solver_ext \<Rightarrow> store \<Rightarrow> nat \<Rightarrow> solver_arg \<Rightarrow> real option \<Rightarrow> bool \<Rightarrow> bool \<Rightarrow>
   (string \<times> optval) list option \<Rightarrow> 'c model_generator \<Rightarrow> bool \<Rightarrow> bool \<Rightarrow> bool \<Rightarrow>
   (py_error + nat \<times> 'c pmodel option \<times> results option) \<times> store" where
  "solve_dcopf_losses tx sx h model_data solver timelimit solver_tee symbolic_solver_labels opts
       dcopf_losses_model_generator return_model return_results include_feasibility_slack =
     (case run_generator tx dcopf_losses_model_generator h model_data include_feasibility_slack of
        (Inl e, h1) \<Rightarrow> (Inl e, h1)
      | (Inr (m, md), h1) \<Rightarrow>
          (case solve_model sx (m\<lparr>dual := Map.empty\<rparr>) solver (Some 0.001) timelimit solver_tee
                  symbolic_solver_labels opts of
             Inl e \<Rightarrow> (Inl e, h1)
           | Inr (m', res) \<Rightarrow>
               (case save_results dcopf_losses_model_generator m' (h1 ! md) of
                  Inl e \<Rightarrow> (Inl e, h1)
                | Inr md' \<Rightarrow>
                    (Inr (md, (if return_model then Some m' else None),
                              (if return_results then Some res else None)),
                     h1[md := unscale_to_pu tx md']))))"

subsection \<open>The marginal price as the specification states it\<close>

text \<open>
  For the PTDF-based model the specification gives the marginal price at a bus as the
  system-wide balance dual plus the sum over all branches of the branch's PTDF entry at
  the bus times the branch's flow-constraint dual plus the branch's LDF entry at the bus
  times the branch's loss-constraint dual. \<open>lmp_term\<close> is the summand of a branch,
  \<open>lmp_spec\<close> the price; both are defined when every entry and dual is there.
\<close>

definition lmp_term :: "'c pmodel \<Rightarrow> string \<Rightarrow> string \<times> element \<Rightarrow> real option" where
  "lmp_term m b kd =
     (case (row_entry (snd kd) ''ptdf_r'' b, dual m (''eq_pf_branch'', Some (fst kd)),
            row_entry (snd kd) ''ldf'' b, dual m (''eq_pfl_branch'', Some (fst kd))) of
        (Some p, Some dp, Some l, Some dl) \<Rightarrow> Some (p * dp + l * dl)
      | _ \<Rightarrow> None)"

definition lmp_spec :: "'c pmodel \<Rightarrow> elements \<Rightarrow> string \<Rightarrow> real option" where
  "lmp_spec m branches b =
     (case (dual m (''eq_p_balance'', None), those (map (lmp_term m b) branches)) of
        (Some lam, Some terms) \<Rightarrow> Some (lam + sum_list terms)
      | _ \<Rightarrow> None)"

subsection \<open>What the extraction leaves in the snapshot\<close>

text \<open>The attribute \<open>key\<close> of \<open>d\<close> holds the number that the read \<open>r\<close> of the model returned.\<close>

definition written :: "element \<Rightarrow> string \<Rightarrow> py_error + real \<Rightarrow> bool" where
  "written d key r = (case r of Inr x \<Rightarrow> d key = Some (Num x) | Inl e \<Rightarrow> False)"

text \<open>The names of the elements with the names of their attributes.\<close>

definition attribute_names :: "elements \<Rightarrow> (string \<times> string set) list" where
  "attribute_names elems = map (\<lambda>(n, d). (n, dom d)) elems"

text \<open>
  The snapshot \<open>md'\<close> holds the results of the solved model \<open>m\<close>, extracted into \<open>md\<close>:
  the total cost, the dispatch of every generator, the load of every bus, no \<open>qlmp\<close> at
  any bus, the marginal price and the angle of every bus for the angle-based builder, the
  marginal price for the PTDF-based builder, and the flow of every branch, which is the
  only attribute that a branch receives.
\<close>

definition results_written :: "'c model_generator \<Rightarrow> 'c pmodel \<Rightarrow> snapshot \<Rightarrow> snapshot \<Rightarrow> bool" where
  "results_written gen m md md' =
     (obj_value m \<noteq> None \<and> system md' ''total_cost'' = map_option Num (obj_value m)
      \<and> (\<forall>(g, d) \<in> set (generator md'). written d ''pg'' (var_value m ''pg'' g))
      \<and> (\<forall>(b, d) \<in> set (bus md').
             written d ''pl'' (var_value m ''pl'' b) \<and> d ''qlmp'' = None
             \<and> (case gen of
                    Btheta_losses \<Rightarrow>
                      written d ''lmp'' (dual_value m (''eq_p_balance'', Some b))
                      \<and> written d ''va'' (var_value m ''va'' b)
                  | Ptdf_losses \<Rightarrow>
                      lmp_spec m (branch md) b \<noteq> None
                      \<and> d ''lmp'' = map_option Num (lmp_spec m (branch md) b)
                  | Other_generator f \<Rightarrow> True))
      \<and> (\<forall>(k, d) \<in> set (branch md'). written d ''pf'' (var_value m ''pf'' k))
      \<and> attribute_names (branch md') = map (\<lambda>(k, d). (k, insert ''pf'' (dom d))) (branch md))"

text \<open>
  A conversion of a snapshot keeps the names when the system and every element have the
  same attribute names after it as before.
\<close>

definition keeps_names :: "(snapshot \<Rightarrow> snapshot) \<Rightarrow> bool" where
  "keeps_names u =
     (\<forall>md. dom (system (u md)) = dom (system md)
        \<and> attribute_names (bus (u md)) = attribute_names (bus md)
        \<and> attribute_names (branch (u md)) = attribute_names (branch md)
        \<and> attribute_names (generator (u md)) = attribute_names (generator md))"

text \<open>The results are in the snapshot, whatever their values.\<close>

definition results_present :: "'c model_generator \<Rightarrow> snapshot \<Rightarrow> bool" where
  "results_present gen md =
     (''total_cost'' \<in> dom (system md)
      \<and> (\<forall>(g, d) \<in> set (generator md). ''pg'' \<in> dom d)
      \<and> (\<forall>(b, d) \<in> set (bus md).
             ''pl'' \<in> dom d
             \<and> (case gen of
                    Btheta_losses \<Rightarrow> ''lmp'' \<in> dom d \<and> ''va'' \<in> dom d
                  | Ptdf_losses \<Rightarrow> ''lmp'' \<in> dom d
                  | Other_generator f \<Rightarrow> True))
      \<and> (\<forall>(k, d) \<in> set (branch md). ''pf'' \<in> dom d))"

text \<open>The angle at which a built model fixes the variable \<open>va\<close> of a bus.\<close>

definition fixed_angle :: "'c pmodel \<Rightarrow> string \<Rightarrow> real option" where
  "fixed_angle m b =
     (case components m ''va'' of
        Some (Var vars) \<Rightarrow>
          (case vars b of Some v \<Rightarrow> (if fixed v then pv v else None) | None \<Rightarrow> None)
      | _ \<Rightarrow> None)"

definition built_fixed_angle :: "(py_error + 'c pmodel \<times> nat) \<Rightarrow> string \<Rightarrow> real option" where
  "built_fixed_angle r b = (case r of Inr (m, md) \<Rightarrow> fixed_angle m b | Inl e \<Rightarrow> None)"

section \<open>A two-bus network\<close>

text \<open>
  A network with the buses \<open>b1\<close> (the reference bus) and \<open>b2\<close>, the branch \<open>k1\<close> between
  them, the generator \<open>g1\<close> at \<open>b1\<close> and the load \<open>l1\<close> at \<open>b2\<close>, and external functions
  for it: the clone and the scalings keep the content, the sensitivity matrices have a
  zero column for the reference bus.
\<close>

definition ex_md :: snapshot where
  "ex_md =
     \<lparr>system = [''reference_bus'' \<mapsto> Str ''b1'', ''reference_bus_angle'' \<mapsto> Num 0,
                 ''baseMVA'' \<mapsto> Num 1],
      bus = [(''b1'', [''va'' \<mapsto> Num 0, ''vm'' \<mapsto> Num 1, ''qlmp'' \<mapsto> Num 7]),
             (''b2'', [''va'' \<mapsto> Num 0, ''vm'' \<mapsto> Num 1])],
      branch = [(''k1'', [''from_bus'' \<mapsto> Str ''b1'', ''to_bus'' \<mapsto> Str ''b2'',
                          ''rating_long_term'' \<mapsto> Num 100])],
      generator = [(''g1'', [''bus'' \<mapsto> Str ''b1'', ''p_min'' \<mapsto> Num 0, ''p_max'' \<mapsto> Num 100,
                             ''pg'' \<mapsto> Num 0])],
      load = [(''l1'', [''bus'' \<mapsto> Str ''b2'', ''p_load'' \<mapsto> Num 50])],
      shunt = []\<rparr>"

definition ex_ptdf :: matrix where
  "ex_ptdf i j = (if j = 0 then 0 else 1)"

definition ex_ldf :: matrix where
  "ex_ldf i j = (if j = 0 then 0 else 1 / 100)"

definition ex_phi_from :: matrix where
  "ex_phi_from i j = (if i = 0 then 1 else 0)"

definition ex_phi_to :: matrix where
  "ex_phi_to i j = (if i = 1 then 1 else 0)"

definition ex_zero :: matrix where
  "ex_zero i j = 0"

definition ex_ldf_c :: "nat \<Rightarrow> real" where
  "ex_ldf_c i = 0"

definition ex_loads :: "string \<rightharpoonup> real" where
  "ex_loads = [''b1'' \<mapsto> 0, ''b2'' \<mapsto> 50]"

definition ex_pf_init :: "string \<rightharpoonup> real" where
  "ex_pf_init = [''k1'' \<mapsto> 0]"

definition ex_tx :: "unit tx_ext" where
  "ex_tx =
     \<lparr>in_service = (\<lambda>md. md),
      scale_to_pu = (\<lambda>md. md),
      unscale_to_pu = (\<lambda>md. md),
      calculate_ptdf = (\<lambda>md r bp. ex_ptdf),
      calculate_ptdf_ldf = (\<lambda>md r bp. (ex_ptdf, ex_ldf, ex_ldf_c)),
      calculate_phi_constant = (\<lambda>md a. (ex_phi_from, ex_phi_to)),
      calculate_phi_loss_constant = (\<lambda>md a. (ex_zero, ex_zero)),
      dict_of_bus_loads = (\<lambda>md. ex_loads),
      pf_init_of = (\<lambda>md. Inr ex_pf_init),
      library_part = (\<lambda>angle_based slack md. Inr ())\<rparr>"

text \<open>The dictionaries of the example after \<open>create_dicts_of_ptdf_losses\<close>.\<close>

definition ex_bus_ptdf :: elements where
  "ex_bus_ptdf =
     [(''b1'', assign_items [''va'' \<mapsto> Num 0, ''vm'' \<mapsto> Num 1, ''qlmp'' \<mapsto> Num 7]
                 [(''phi_from'', Row (sparse_row [''k1''] ex_phi_from 0)),
                  (''phi_to'', Row (sparse_row [''k1''] ex_phi_to 0)),
                  (''phi_loss_from'', Row (sparse_row [''k1''] ex_zero 0)),
                  (''phi_loss_to'', Row (sparse_row [''k1''] ex_zero 0))]),
      (''b2'', assign_items [''va'' \<mapsto> Num 0, ''vm'' \<mapsto> Num 1]
                 [(''phi_from'', Row (sparse_row [''k1''] ex_phi_from 1)),
                  (''phi_to'', Row (sparse_row [''k1''] ex_phi_to 1)),
                  (''phi_loss_from'', Row (sparse_row [''k1''] ex_zero 1)),
                  (''phi_loss_to'', Row (sparse_row [''k1''] ex_zero 1))])]"

definition ex_branch_ptdf :: elements where
  "ex_branch_ptdf =
     [(''k1'', assign_items [''from_bus'' \<mapsto> Str ''b1'', ''to_bus'' \<mapsto> Str ''b2'',
                             ''rating_long_term'' \<mapsto> Num 100]
                 [(''ptdf_r'', Row (dense_row [''b1'', ''b2''] ex_ptdf 0)),
                  (''ldf'', Row (dense_row [''b1'', ''b2''] ex_ldf 0)),
                  (''ldf_c'', Num (ex_ldf_c 0))])]"

definition ex_md_ptdf :: snapshot where
  "ex_md_ptdf = ex_md\<lparr>bus := ex_bus_ptdf, branch := ex_branch_ptdf\<rparr>"

text \<open>
  A solved model for the example: the generator serves the load of 50 and the loss, the
  price of the system-wide balance is 10.
\<close>

definition ex_var :: "real \<Rightarrow> pvar" where
  "ex_var x = \<lparr>pv = Some x, lb = None, ub = None, fixed = False\<rparr>"

definition ex_solved :: "unit pmodel" where
  "ex_solved =
     \<lparr>components =
        [''pl'' \<mapsto> Var [''b1'' \<mapsto> ex_var 0, ''b2'' \<mapsto> ex_var 50],
         ''va'' \<mapsto> Var [''b1'' \<mapsto> ex_var 0, ''b2'' \<mapsto> ex_var (- 1 / 10)],
         ''pg'' \<mapsto> Var [''g1'' \<mapsto> ex_var (101 / 2)],
         ''pf'' \<mapsto> Var [''k1'' \<mapsto> ex_var 50]],
      library = Some (),
      obj_value = Some 505,
      dual =
        [(''eq_p_balance'', None) \<mapsto> 10,
         (''eq_p_balance'', Some ''b1'') \<mapsto> 10,
         (''eq_p_balance'', Some ''b2'') \<mapsto> 101 / 10,
         (''eq_pf_branch'', Some ''k1'') \<mapsto> 0,
         (''eq_pfl_branch'', Some ''k1'') \<mapsto> 10]\<rparr>"

definition ex_sx :: "unit pmodel solver_ext" where
  "ex_sx =
     \<lparr>SolverFactory = (\<lambda>s. \<lparr>name = s, options = Map.empty, persistent = False, instance_set = False\<rparr>),
      ext_solve = (\<lambda>s m tee lab. (ex_solved, \<lparr>termination_condition = optimal\<rparr>))\<rparr>"

text \<open>The example after the extraction of \<open>ex_solved\<close> for the PTDF-based builder.\<close>

definition ex_md_saved :: snapshot where
  "ex_md_saved =
     \<lparr>system = [''reference_bus'' \<mapsto> Str ''b1'', ''reference_bus_angle'' \<mapsto> Num 0,
                 ''baseMVA'' \<mapsto> Num 1, ''total_cost'' \<mapsto> Num 505],
      bus = [(''b1'', [''va'' \<mapsto> Num 0, ''vm'' \<mapsto> Num 1,
                       ''phi_from'' \<mapsto> Row (sparse_row [''k1''] ex_phi_from 0),
                       ''phi_to'' \<mapsto> Row (sparse_row [''k1''] ex_phi_to 0),
                       ''phi_loss_from'' \<mapsto> Row (sparse_row [''k1''] ex_zero 0),
                       ''phi_loss_to'' \<mapsto> Row (sparse_row [''k1''] ex_zero 0),
                       ''pl'' \<mapsto> Num 0, ''lmp'' \<mapsto> Num 10]),
             (''b2'', [''va'' \<mapsto> Num 0, ''vm'' \<mapsto> Num 1,
                       ''phi_from'' \<mapsto> Row (sparse_row [''k1''] ex_phi_from 1),
                       ''phi_to'' \<mapsto> Row (sparse_row [''k1''] ex_phi_to 1),
                       ''phi_loss_from'' \<mapsto> Row (sparse_row [''k1''] ex_zero 1),
                       ''phi_loss_to'' \<mapsto> Row (sparse_row [''k1''] ex_zero 1),
                       ''pl'' \<mapsto> Num 50, ''lmp'' \<mapsto> Num (101 / 10)])],
      branch = [(''k1'', [''from_bus'' \<mapsto> Str ''b1'', ''to_bus'' \<mapsto> Str ''b2'',
                          ''rating_long_term'' \<mapsto> Num 100,
                          ''ptdf_r'' \<mapsto> Row (dense_row [''b1'', ''b2''] ex_ptdf 0),
                          ''ldf'' \<mapsto> Row (dense_row [''b1'', ''b2''] ex_ldf 0),
                          ''ldf_c'' \<mapsto> Num (ex_ldf_c 0), ''pf'' \<mapsto> Num 50])],
      generator = [(''g1'', [''bus'' \<mapsto> Str ''b1'', ''p_min'' \<mapsto> Num 0, ''p_max'' \<mapsto> Num 100,
                             ''pg'' \<mapsto> Num (101 / 2)])],
      load = [(''l1'', [''bus'' \<mapsto> Str ''b2'', ''p_load'' \<mapsto> Num 50])],
      shunt = []\<rparr>"

definition ex_bus_saved_b2 :: "string \<times> element" where
  "ex_bus_saved_b2 =
     (''b2'', [''va'' \<mapsto> Num 0, ''vm'' \<mapsto> Num 1,
               ''phi_from'' \<mapsto> Row (sparse_row [''k1''] ex_phi_from 1),
               ''phi_to'' \<mapsto> Row (sparse_row [''k1''] ex_phi_to 1),
               ''phi_loss_from'' \<mapsto> Row (sparse_row [''k1''] ex_zero 1),
               ''phi_loss_to'' \<mapsto> Row (sparse_row [''k1''] ex_zero 1),
               ''pl'' \<mapsto> Num 50, ''lmp'' \<mapsto> Num (101 / 10)])"

text \<open>The example after a solve with the angle-based builder.\<close>

definition ex_md_btheta_saved :: snapshot where
  "ex_md_btheta_saved =
     \<lparr>system = [''reference_bus'' \<mapsto> Str ''b1'', ''reference_bus_angle'' \<mapsto> Num 0,
                 ''baseMVA'' \<mapsto> Num 1, ''total_cost'' \<mapsto> Num 505],
      bus = [(''b1'', [''vm'' \<mapsto> Num 1, ''pl'' \<mapsto> Num 0, ''lmp'' \<mapsto> Num 10, ''va'' \<mapsto> Num 0]),
             (''b2'', [''vm'' \<mapsto> Num 1, ''pl'' \<mapsto> Num 50, ''lmp'' \<mapsto> Num (101 / 10),
                       ''va'' \<mapsto> Num (- (1 / 10))])],
      branch = [(''k1'', [''from_bus'' \<mapsto> Str ''b1'', ''to_bus'' \<mapsto> Str ''b2'',
                          ''rating_long_term'' \<mapsto> Num 100, ''pf'' \<mapsto> Num 50])],
      generator = [(''g1'', [''bus'' \<mapsto> Str ''b1'', ''p_min'' \<mapsto> Num 0, ''p_max'' \<mapsto> Num 100,
                             ''pg'' \<mapsto> Num (101 / 2)])],
      load = [(''l1'', [''bus'' \<mapsto> Str ''b2'', ''p_load'' \<mapsto> Num 50])],
      shunt = []\<rparr>"

text \<open>The example with the reference bus at an angle of 30 degrees.\<close>

definition ex_md_ref30 :: snapshot where
  "ex_md_ref30 = ex_md\<lparr>system := (system ex_md)(''reference_bus_angle'' \<mapsto> Num 30)\<rparr>"

section \<open>Theorems on the solver interface\<close>

lemma solve_model_str:
  "solve_model ext model (SolverStr s) mipgap timelimit tee lab opts =
     (let solver1 = set_options (SolverFactory ext s) mipgap timelimit opts;
          r = (if persistent solver1 then
                 ext_solve ext (solver1\<lparr>instance_set := True\<rparr>) model tee None
               else ext_solve ext solver1 model tee (Some lab))
      in if termination_condition (snd r) \<notin> set safe_termination_conditions
         then Inl (AttributeError ''terminataion_condition'')
         else Inr r)"
  by (simp add: solve_model_def Let_def split: prod.splits)

text \<open>
  C8: when the solver argument is not a string, the call raises (NameError) whatever the
  external solver would do, so no solve is attempted; this includes an instantiated solver.
\<close>

theorem solve_model_non_string_raises:
  "solve_model ext model (SolverObj so) mipgap timelimit tee lab opts = Inl (NameError ''pyomo'')
   \<and> solve_model ext model SolverOther mipgap timelimit tee lab opts = Inl (NameError ''pyomo'')"
  by (simp add: solve_model_def)

text \<open>
  C2, as the specification states it, fails: a solve that ends with the termination
  condition \<open>minFunctionValue\<close>, which is outside the specification's accepted set, does
  not raise.
\<close>

theorem solve_model_minFunctionValue_accepted:
  "solve_model (const_ext minFunctionValue) () (SolverStr ''ipopt'') (Some 0.001) None True False None
     = Inr ((), \<lparr>termination_condition = minFunctionValue\<rparr>)
   \<and> minFunctionValue \<notin> set spec_accepted"
  by (simp add: solve_model_def const_ext_def set_options_def set_opt_def
      safe_termination_conditions_def spec_accepted_def)

text \<open>
  C2, amended: for a solver given by name, the driver raises if and only if the
  termination condition that the solver reports is outside the specification's set
  extended by \<open>minFunctionValue\<close> and \<open>minStepLength\<close>; inside that set the solved model
  and the results are returned.
\<close>

theorem solve_model_raises_iff:
  "((\<exists>e. solve_model ext model (SolverStr s) mipgap timelimit tee lab opts = Inl e) \<longleftrightarrow>
      termination_condition (snd (issued_solve ext model s mipgap timelimit tee lab opts))
        \<notin> set spec_accepted \<union> {minFunctionValue, minStepLength})
   \<and> ((solve_model ext model (SolverStr s) mipgap timelimit tee lab opts
          = Inr (issued_solve ext model s mipgap timelimit tee lab opts)) \<longleftrightarrow>
      termination_condition (snd (issued_solve ext model s mipgap timelimit tee lab opts))
        \<in> set spec_accepted \<union> {minFunctionValue, minStepLength})"
proof -
  have sets: "set safe_termination_conditions = set spec_accepted \<union> {minFunctionValue, minStepLength}"
    by (auto simp: safe_termination_conditions_def spec_accepted_def)
  show ?thesis
    unfolding solve_model_str issued_solve_def sets [symmetric]
    by (simp add: Let_def)
qed

section \<open>Theorems on the model-attribute decorator\<close>

lemma check_requires_None:
  "set ks \<subseteq> fst ` set requires \<Longrightarrow>
   (check_requires fname requires ks model = None) =
   (\<forall>b \<in> set ks. \<exists>v. model b = Some v \<and>
      (\<forall>allowed. map_of requires b = Some (Some allowed) \<longrightarrow> v \<in> PStr ` set allowed))"
proof (induction ks)
  case Nil
  then show ?case by simp
next
  case (Cons k ks)
  then have "k \<in> fst ` set requires" by simp
  then obtain r where r: "map_of requires k = Some r"
    by (metis domD dom_map_of_conv_image_fst)
  from Cons have IH: "(check_requires fname requires ks model = None) =
     (\<forall>b \<in> set ks. \<exists>v. model b = Some v \<and>
        (\<forall>allowed. map_of requires b = Some (Some allowed) \<longrightarrow> v \<in> PStr ` set allowed))"
    by simp
  show ?case
  proof (cases "model k")
    case None
    then show ?thesis by simp
  next
    case (Some v)
    show ?thesis
    proof (cases r)
      case None
      with Some r IH show ?thesis by simp
    next
      case (Some allowed)
      with \<open>model k = Some v\<close> r IH show ?thesis by simp
    qed
  qed
qed

lemma wrapper_pre_rejected:
  "rejected attr requires model \<Longrightarrow> \<exists>e. wrapper_pre attr requires fname (model # rest) = Inl e"
proof (cases "model attr")
  case (Some v)
  then show ?thesis by (simp add: wrapper_pre_def)
next
  case None
  assume "rejected attr requires model"
  with None have "\<not> (\<forall>b \<in> set (map fst requires). \<exists>v. model b = Some v \<and>
      (\<forall>allowed. map_of requires b = Some (Some allowed) \<longrightarrow> v \<in> PStr ` set allowed))"
    unfolding rejected_def by fastforce
  then have "check_requires fname requires (map fst requires) model \<noteq> None"
    using check_requires_None [of "map fst requires" requires fname model] by simp
  with None show ?thesis by (auto simp: wrapper_pre_def)
qed

lemma wrapper_pre_accepted:
  "\<not> rejected attr requires model \<Longrightarrow>
   wrapper_pre attr requires fname (model # rest) = Inr (model(attr \<mapsto> PStr fname) # rest)"
proof -
  assume nr: "\<not> rejected attr requires model"
  then have a: "model attr = None" by (simp add: rejected_def)
  from nr have "\<forall>b \<in> set (map fst requires). \<exists>v. model b = Some v \<and>
      (\<forall>allowed. map_of requires b = Some (Some allowed) \<longrightarrow> v \<in> PStr ` set allowed)"
    unfolding rejected_def by fastforce
  then have "check_requires fname requires (map fst requires) model = None"
    using check_requires_None [of "map fst requires" requires fname model] by simp
  with a show ?thesis by (simp add: wrapper_pre_def)
qed

lemma py_str_examples: "py_str (PInt 5) = ''5''" "py_str (PInt (- 12)) = ''-12''"
  by simp_all

text \<open>
  C10, as the specification states it, fails: a call that passes the model by keyword has
  no positional argument, so the wrapper raises IndexError at \<open>args[0]\<close> without
  invoking the wrapped function, although the model has no attribute and nothing is
  required.
\<close>

theorem add_model_attr_keyword_model_raises:
  "add_model_attr ''power_vars'' [] ''basic_power'' ex_func [] ex_kwds = Inl IndexError
   \<and> ex_func [] ex_kwds = Inr ()
   \<and> ex_kwds ''model'' = Some Map.empty
   \<and> \<not> rejected ''power_vars'' [] Map.empty"
  by (simp add: add_model_attr_def wrapper_pre_def bnd_def ex_func_def ex_kwds_def rejected_def)

text \<open>
  C10, amended: called with the model as first positional argument, the wrapper raises
  without invoking the wrapped function (the exception is the same for every wrapped
  function and every keyword arguments) if the model already has \<open>attr\<close>, a required
  attribute is absent or a required attribute's value is outside its allowed list;
  otherwise the call is the wrapped function's call on the model with \<open>attr\<close> set to the
  function's name. Called without a positional argument, the wrapper raises IndexError
  without invoking the wrapped function.
\<close>

theorem add_model_attr_wrapper:
  "(rejected attr requires model \<longrightarrow>
      (\<exists>e. \<forall>(func :: py_object list \<Rightarrow> 'k \<Rightarrow> py_error + 'r) kwds.
         add_model_attr attr requires fname func (model # rest) kwds = Inl e))
   \<and> (\<not> rejected attr requires model \<longrightarrow>
        (\<forall>(func :: py_object list \<Rightarrow> 'k \<Rightarrow> py_error + 'r) kwds.
           add_model_attr attr requires fname func (model # rest) kwds
             = func (model(attr \<mapsto> PStr fname) # rest) kwds))
   \<and> (\<forall>(func :: py_object list \<Rightarrow> 'k \<Rightarrow> py_error + 'r) kwds.
        add_model_attr attr requires fname func [] kwds = Inl IndexError)"
proof (intro conjI impI)
  assume "rejected attr requires model"
  then obtain e where "wrapper_pre attr requires fname (model # rest) = Inl e"
    using wrapper_pre_rejected by blast
  then show "\<exists>e. \<forall>(func :: py_object list \<Rightarrow> 'k \<Rightarrow> py_error + 'r) kwds.
      add_model_attr attr requires fname func (model # rest) kwds = Inl e"
    by (auto simp: add_model_attr_def bnd_def)
next
  assume "\<not> rejected attr requires model"
  then show "\<forall>(func :: py_object list \<Rightarrow> 'k \<Rightarrow> py_error + 'r) kwds.
      add_model_attr attr requires fname func (model # rest) kwds
        = func (model(attr \<mapsto> PStr fname) # rest) kwds"
    by (simp add: add_model_attr_def bnd_def wrapper_pre_accepted)
next
  show "\<forall>(func :: py_object list \<Rightarrow> 'k \<Rightarrow> py_error + 'r) kwds.
        add_model_attr attr requires fname func [] kwds = Inl IndexError"
    by (simp add: add_model_attr_def bnd_def wrapper_pre_def)
qed

theorem add_model_attr_wrapper_witness:
  "rejected ''power_vars'' [(''status_vars'', Some [''garver'', ''ALS''])] [''status_vars'' \<mapsto> PInt 5]
   \<and> (\<exists>e. \<forall>(func :: py_object list \<Rightarrow> unit \<Rightarrow> py_error + unit) kwds.
          add_model_attr ''power_vars'' [(''status_vars'', Some [''garver'', ''ALS''])] ''basic_power''
            func [[''status_vars'' \<mapsto> PInt 5]] kwds = Inl e)
   \<and> \<not> rejected ''power_vars'' [(''status_vars'', Some [''garver'', ''ALS''])] [''status_vars'' \<mapsto> PStr ''ALS'']
   \<and> (\<forall>(func :: py_object list \<Rightarrow> unit \<Rightarrow> py_error + unit) kwds.
          add_model_attr ''power_vars'' [(''status_vars'', Some [''garver'', ''ALS''])] ''basic_power''
            func [[''status_vars'' \<mapsto> PStr ''ALS'']] kwds
          = func [[''status_vars'' \<mapsto> PStr ''ALS'', ''power_vars'' \<mapsto> PStr ''basic_power'']] kwds)"
proof -
  have r: "rejected ''power_vars'' [(''status_vars'', Some [''garver'', ''ALS''])] [''status_vars'' \<mapsto> PInt 5]"
    by (simp add: rejected_def)
  have a: "\<not> rejected ''power_vars'' [(''status_vars'', Some [''garver'', ''ALS''])] [''status_vars'' \<mapsto> PStr ''ALS'']"
    by (simp add: rejected_def)
  from r a show ?thesis
    using add_model_attr_wrapper [of "''power_vars''" "[(''status_vars'', Some [''garver'', ''ALS''])]"
        "[''status_vars'' \<mapsto> PInt 5]" "''basic_power''" "[]", where ?'k = unit and ?'r = unit]
      add_model_attr_wrapper [of "''power_vars''" "[(''status_vars'', Some [''garver'', ''ALS''])]"
        "[''status_vars'' \<mapsto> PStr ''ALS'']" "''basic_power''" "[]", where ?'k = unit and ?'r = unit]
    by simp
qed

section \<open>Theorems on the sensitivity dictionaries\<close>

lemma assign_items_Nil: "assign_items d [] = d"
  by (simp add: assign_items_def)

lemma assign_items_Cons: "assign_items d ((k, v) # kvs) = assign_items (d(k \<mapsto> v)) kvs"
  by (simp add: assign_items_def)

lemma assign_items_Some:
  "assign_items m kvs k = Some v \<Longrightarrow> m k = Some v \<or> (k, v) \<in> set kvs"
proof (induction kvs arbitrary: m)
  case Nil
  then show ?case by (simp add: assign_items_Nil)
next
  case (Cons kv kvs)
  obtain a b where kv: "kv = (a, b)" by (cases kv)
  from Cons.prems kv have "assign_items (m(a \<mapsto> b)) kvs k = Some v"
    by (simp add: assign_items_Cons)
  then have "(m(a \<mapsto> b)) k = Some v \<or> (k, v) \<in> set kvs"
    by (rule Cons.IH)
  then show ?case
    using kv by (cases "k = a") auto
qed

lemma dict_comp_Some: "dict_comp kvs k = Some v \<Longrightarrow> (k, v) \<in> set kvs"
  using assign_items_Some [of Map.empty kvs k v] by (simp add: dict_comp_def)

lemma dom_assign_items: "dom (assign_items m kvs) = dom m \<union> fst ` set kvs"
proof (induction kvs arbitrary: m)
  case Nil
  then show ?case by (simp add: assign_items_Nil)
next
  case (Cons kv kvs)
  then show ?case by (cases kv) (auto simp: assign_items_Cons)
qed

lemma dom_dict_comp: "dom (dict_comp kvs) = fst ` set kvs"
  by (simp add: dict_comp_def dom_assign_items)

lemma sparse_row_nonzero: "sparse_row names M idx k \<noteq> Some 0"
proof
  assume "sparse_row names M idx k = Some 0"
  then have "(k, 0) \<in> set (map (\<lambda>i. (names ! i, M idx i)) (filter (\<lambda>i. M idx i \<noteq> 0) [0..<length names]))"
    unfolding sparse_row_def by (rule dict_comp_Some)
  then show False by auto
qed

lemma dom_dense_row: "dom (dense_row names M idx) = set names"
proof -
  have "(\<lambda>i. names ! i) ` {0..<length names} = set names"
    by (metis atLeast0LessThan list.set_map map_nth set_upt)
  then show ?thesis
    by (simp add: dense_row_def dom_dict_comp image_image)
qed

lemma map_fst_set_items: "map fst (set_items nm kvs elems) = map fst elems"
  by (induction elems) (auto simp: set_items_def)

lemma set_items_cases:
  "(n, d') \<in> set (set_items nm kvs elems) \<Longrightarrow>
   \<exists>d. (n, d) \<in> set elems \<and> d' = (if n = nm then assign_items d kvs else d)"
  by (auto simp: set_items_def split: if_splits)

text \<open>
  After the loop over the first \<open>j\<close> names, every element whose name is among them carries
  the items of one of the rounds.
\<close>

lemma fold_set_items:
  assumes "j \<le> length names"
  shows "map fst (foldl (\<lambda>bs idx. set_items (names ! idx) (g idx) bs) elems [0..<j]) = map fst elems \<and>
         (\<forall>(n, d) \<in> set (foldl (\<lambda>bs idx. set_items (names ! idx) (g idx) bs) elems [0..<j]).
            n \<in> set (take j names) \<longrightarrow>
            (\<exists>idx < j. \<exists>d0. d = assign_items d0 (g idx)))"
  using assms
proof (induction j)
  case 0
  then show ?case by simp
next
  case (Suc j)
  let ?res = "foldl (\<lambda>bs idx. set_items (names ! idx) (g idx) bs) elems [0..<j]"
  from Suc have IH: "map fst ?res = map fst elems"
    "\<And>n d. (n, d) \<in> set ?res \<Longrightarrow> n \<in> set (take j names) \<Longrightarrow>
       \<exists>idx < j. \<exists>d0. d = assign_items d0 (g idx)"
    by auto
  have step: "foldl (\<lambda>bs idx. set_items (names ! idx) (g idx) bs) elems [0..<Suc j]
      = set_items (names ! j) (g j) ?res"
    by simp
  have tk: "set (take (Suc j) names) = set (take j names) \<union> {names ! j}"
    using Suc.prems by (simp add: take_Suc_conv_app_nth)
  show ?case
    unfolding step
  proof (intro conjI ballI)
    show "map fst (set_items (names ! j) (g j) ?res) = map fst elems"
      by (simp add: map_fst_set_items IH(1))
  next
    fix x assume x: "x \<in> set (set_items (names ! j) (g j) ?res)"
    obtain n d' where nd: "x = (n, d')" by (cases x)
    from x nd obtain d where d: "(n, d) \<in> set ?res"
      "d' = (if n = names ! j then assign_items d (g j) else d)"
      using set_items_cases by blast
    have "n \<in> set (take (Suc j) names) \<longrightarrow>
       (\<exists>idx < Suc j. \<exists>d0. d' = assign_items d0 (g idx))"
    proof (cases "n = names ! j")
      case True
      with d(2) show ?thesis by auto
    next
      case False
      with d IH(2) [of n d] tk show ?thesis
        by (auto intro: less_SucI)
    qed
    with nd show "case x of (n, d) \<Rightarrow> n \<in> set (take (Suc j) names) \<longrightarrow>
       (\<exists>idx < Suc j. \<exists>d0. d = assign_items d0 (g idx))"
      by simp
  qed
qed

lemma fold_set_items_all:
  assumes "(n, d) \<in> set (foldl (\<lambda>bs idx. set_items (map fst elems ! idx) (g idx) bs) elems
                          [0..<length (map fst elems)])"
  shows "\<exists>idx d0. d = assign_items d0 (g idx)"
proof -
  let ?names = "map fst elems"
  let ?res = "foldl (\<lambda>bs idx. set_items (?names ! idx) (g idx) bs) elems [0..<length ?names]"
  have inv: "map fst ?res = map fst elems \<and>
         (\<forall>(n, d) \<in> set ?res. n \<in> set (take (length ?names) ?names) \<longrightarrow>
            (\<exists>idx < length ?names. \<exists>d0. d = assign_items d0 (g idx)))"
    by (rule fold_set_items) simp
  from assms have "n \<in> set (map fst ?res)" by force
  with inv have "n \<in> set (take (length ?names) ?names)" by simp
  with inv assms show ?thesis by blast
qed

lemma create_dicts_of_ptdf_losses_bus:
  assumes "create_dicts_of_ptdf_losses tx md bp = Inr md'" "(n, d) \<in> set (bus md')"
  shows "\<exists>idx pf pt plf plt.
           d ''phi_from'' = Some (Row (sparse_row (map fst (branch md)) pf idx)) \<and>
           d ''phi_to'' = Some (Row (sparse_row (map fst (branch md)) pt idx)) \<and>
           d ''phi_loss_from'' = Some (Row (sparse_row (map fst (branch md)) plf idx)) \<and>
           d ''phi_loss_to'' = Some (Row (sparse_row (map fst (branch md)) plt idx))"
proof -
  obtain pf pt where p1: "calculate_phi_constant tx md PTDF_LOSSES = (pf, pt)"
    by (cases "calculate_phi_constant tx md PTDF_LOSSES")
  obtain plf plt where p2: "calculate_phi_loss_constant tx md PTDF_LOSSES = (plf, plt)"
    by (cases "calculate_phi_loss_constant tx md PTDF_LOSSES")
  let ?g = "\<lambda>idx. [(''phi_from'', Row (sparse_row (map fst (branch md)) pf idx)),
                    (''phi_to'', Row (sparse_row (map fst (branch md)) pt idx)),
                    (''phi_loss_from'', Row (sparse_row (map fst (branch md)) plf idx)),
                    (''phi_loss_to'', Row (sparse_row (map fst (branch md)) plt idx))]"
  from assms(1) p1 p2 have "bus md' =
      foldl (\<lambda>bs idx. set_items (map fst (bus md) ! idx) (?g idx) bs) (bus md)
        [0..<length (map fst (bus md))]"
    by (auto simp: create_dicts_of_ptdf_losses_def Let_def split: option.splits prod.splits)
  with assms(2) obtain idx d0 where "d = assign_items d0 (?g idx)"
    using fold_set_items_all [of n d "bus md" ?g] by auto
  then show ?thesis
    by (intro exI [of _ idx] exI [of _ pf] exI [of _ pt] exI [of _ plf] exI [of _ plt])
       (simp add: assign_items_Cons assign_items_Nil)
qed

lemma create_dicts_of_ptdf_losses_branch:
  assumes "create_dicts_of_ptdf_losses tx md bp = Inr md'" "(n, d) \<in> set (branch md')"
  shows "\<exists>idx P L. d ''ptdf_r'' = Some (Row (dense_row (map fst (bus md)) P idx)) \<and>
                   d ''ldf'' = Some (Row (dense_row (map fst (bus md)) L idx))"
proof -
  obtain rb where rb: "system md ''reference_bus'' = Some rb"
    using assms(1) by (auto simp: create_dicts_of_ptdf_losses_def split: option.splits)
  obtain P L c where p: "calculate_ptdf_ldf tx md rb bp = (P, L, c)"
    by (cases "calculate_ptdf_ldf tx md rb bp")
  let ?g = "\<lambda>idx. [(''ptdf_r'', Row (dense_row (map fst (bus md)) P idx)),
                    (''ldf'', Row (dense_row (map fst (bus md)) L idx)),
                    (''ldf_c'', Num (c idx))]"
  from assms(1) rb p have "branch md' =
      foldl (\<lambda>bs idx. set_items (map fst (branch md) ! idx) (?g idx) bs) (branch md)
        [0..<length (map fst (branch md))]"
    by (auto simp: create_dicts_of_ptdf_losses_def Let_def split: option.splits prod.splits)
  with assms(2) obtain idx d0 where "d = assign_items d0 (?g idx)"
    using fold_set_items_all [of n d "branch md" ?g] by auto
  then show ?thesis
    by (intro exI [of _ idx] exI [of _ P] exI [of _ L])
       (simp add: assign_items_Cons assign_items_Nil)
qed

lemma create_dicts_of_ptdf_losses_names:
  assumes "create_dicts_of_ptdf_losses tx md bp = Inr md'"
  shows "map fst (bus md') = map fst (bus md) \<and> map fst (branch md') = map fst (branch md)
         \<and> system md' = system md \<and> generator md' = generator md"
proof -
  have a: "\<And>g elems. map fst (foldl (\<lambda>bs idx. set_items (map fst elems ! idx) (g idx) bs) elems
             [0..<length elems]) = map fst elems"
  proof -
    fix g :: "nat \<Rightarrow> (string \<times> val) list" and elems :: elements
    show "map fst (foldl (\<lambda>bs idx. set_items (map fst elems ! idx) (g idx) bs) elems
             [0..<length elems]) = map fst elems"
      using fold_set_items [of "length elems" "map fst elems" g elems] by simp
  qed
  from assms show ?thesis
    by (auto simp: create_dicts_of_ptdf_losses_def Let_def a split: option.splits prod.splits)
qed

lemma create_dicts_of_ptdf_bus:
  assumes "create_dicts_of_ptdf tx md bp = Inr md'" "(n, d) \<in> set (bus md')"
  shows "\<exists>idx pf pt.
           d ''phi_from'' = Some (Row (sparse_row (map fst (branch md)) pf idx)) \<and>
           d ''phi_to'' = Some (Row (sparse_row (map fst (branch md)) pt idx))"
proof -
  obtain pf pt where p1: "calculate_phi_constant tx md PTDF = (pf, pt)"
    by (cases "calculate_phi_constant tx md PTDF")
  let ?g = "\<lambda>idx. [(''phi_from'', Row (sparse_row (map fst (branch md)) pf idx)),
                    (''phi_to'', Row (sparse_row (map fst (branch md)) pt idx))]"
  from assms(1) p1 have "bus md' =
      foldl (\<lambda>bs idx. set_items (map fst (bus md) ! idx) (?g idx) bs) (bus md)
        [0..<length (map fst (bus md))]"
    by (auto simp: create_dicts_of_ptdf_def Let_def split: option.splits prod.splits)
  with assms(2) obtain idx d0 where "d = assign_items d0 (?g idx)"
    using fold_set_items_all [of n d "bus md" ?g] by auto
  then show ?thesis
    by (intro exI [of _ idx] exI [of _ pf] exI [of _ pt])
       (simp add: assign_items_Cons assign_items_Nil)
qed

lemma ex_create_dicts_of_ptdf_losses:
  "create_dicts_of_ptdf_losses ex_tx ex_md SOLUTION = Inr ex_md_ptdf"
  by (simp add: create_dicts_of_ptdf_losses_def ex_tx_def ex_md_def ex_md_ptdf_def
      ex_bus_ptdf_def ex_branch_ptdf_def set_items_def Let_def)

lemma ex_ptdf_r_entry:
  "row_entry (assign_items d [(''ptdf_r'', Row (dense_row [''b1'', ''b2''] ex_ptdf 0)),
                              (''ldf'', Row (dense_row [''b1'', ''b2''] ex_ldf 0)),
                              (''ldf_c'', Num (ex_ldf_c 0))]) ''ptdf_r'' ''b1'' = Some 0"
  by (simp add: row_entry_def assign_items_def dense_row_def dict_comp_def ex_ptdf_def)

text \<open>
  C3, as the specification states it, fails: the PTDF row stored on the branch \<open>k1\<close> of the
  example has an entry for the reference bus \<open>b1\<close>, and the entry is zero.
\<close>

theorem ptdf_zero_entry_stored:
  "create_dicts_of_ptdf_losses ex_tx ex_md SOLUTION = Inr ex_md_ptdf
   \<and> branch_entries ex_md_ptdf ''ptdf_r'' ''b1'' = [(''k1'', Some 0)]"
  using ex_ptdf_r_entry
  by (simp add: ex_create_dicts_of_ptdf_losses)
     (simp add: branch_entries_def ex_md_ptdf_def ex_branch_ptdf_def)

lemma create_dicts_of_ptdf_branch:
  assumes "create_dicts_of_ptdf tx md bp = Inr md'" "(n, d) \<in> set (branch md')"
  shows "\<exists>idx P. d ''ptdf'' = Some (Row (dense_row (map fst (bus md)) P idx))"
proof -
  obtain rb where rb: "system md ''reference_bus'' = Some rb"
    using assms(1) by (auto simp: create_dicts_of_ptdf_def split: option.splits)
  let ?g = "\<lambda>idx. [(''ptdf'', Row (dense_row (map fst (bus md)) (calculate_ptdf tx md rb bp) idx))]"
  from assms(1) rb have "branch md' =
      foldl (\<lambda>bs idx. set_items (map fst (branch md) ! idx) (?g idx) bs) (branch md)
        [0..<length (map fst (branch md))]"
    by (auto simp: create_dicts_of_ptdf_def Let_def split: option.splits prod.splits)
  with assms(2) obtain idx d0 where "d = assign_items d0 (?g idx)"
    using fold_set_items_all [of n d "branch md" ?g] by auto
  then show ?thesis
    by (intro exI [of _ idx] exI [of _ "calculate_ptdf tx md rb bp"])
       (simp add: assign_items_Cons assign_items_Nil)
qed

lemma create_dicts_of_ptdf_names:
  assumes "create_dicts_of_ptdf tx md bp = Inr md'"
  shows "map fst (bus md') = map fst (bus md)"
proof -
  have a: "\<And>g elems. map fst (foldl (\<lambda>bs idx. set_items (map fst elems ! idx) (g idx) bs) elems
             [0..<length elems]) = map fst elems"
  proof -
    fix g :: "nat \<Rightarrow> (string \<times> val) list" and elems :: elements
    show "map fst (foldl (\<lambda>bs idx. set_items (map fst elems ! idx) (g idx) bs) elems
             [0..<length elems]) = map fst elems"
      using fold_set_items [of "length elems" "map fst elems" g elems] by simp
  qed
  from assms show ?thesis
    by (auto simp: create_dicts_of_ptdf_def Let_def a split: option.splits prod.splits)
qed

lemma sparse_row_entry: "d field = Some (Row (sparse_row names M idx)) \<Longrightarrow> row_entry d field k \<noteq> Some 0"
  by (simp add: row_entry_def sparse_row_nonzero)

lemma dense_row_entry:
  "d field = Some (Row (dense_row names M idx)) \<Longrightarrow> b \<in> set names \<Longrightarrow> row_entry d field b \<noteq> None"
  using dom_dense_row [of names M idx] by (auto simp: row_entry_def)

text \<open>
  C3, amended: in the dictionaries that \<open>create_dicts_of_ptdf_losses\<close> and
  \<open>create_dicts_of_ptdf\<close> store, every bus has its phi-from and phi-to row (and, with
  losses, its phi-loss-from and phi-loss-to row) and no entry of these rows is zero; the
  PTDF and LDF rows of every branch have an entry for every bus, whatever its value.
\<close>

theorem phi_rows_sparse_ptdf_rows_dense:
  "(create_dicts_of_ptdf_losses tx md bp = Inr md' \<longrightarrow>
      (\<forall>(n, d) \<in> set (bus md').
         \<forall>field \<in> {''phi_from'', ''phi_to'', ''phi_loss_from'', ''phi_loss_to''}.
           (\<exists>r. d field = Some (Row r)) \<and> (\<forall>k. row_entry d field k \<noteq> Some 0))
      \<and> (\<forall>(n, d) \<in> set (branch md'). \<forall>field \<in> {''ptdf_r'', ''ldf''}.
           \<forall>b \<in> set (map fst (bus md')). row_entry d field b \<noteq> None))
   \<and> (create_dicts_of_ptdf tx md bp = Inr md'' \<longrightarrow>
      (\<forall>(n, d) \<in> set (bus md''). \<forall>field \<in> {''phi_from'', ''phi_to''}.
           (\<exists>r. d field = Some (Row r)) \<and> (\<forall>k. row_entry d field k \<noteq> Some 0))
      \<and> (\<forall>(n, d) \<in> set (branch md''). \<forall>b \<in> set (map fst (bus md'')).
           row_entry d ''ptdf'' b \<noteq> None))"
proof (intro conjI impI)
  assume h: "create_dicts_of_ptdf_losses tx md bp = Inr md'"
  show "\<forall>(n, d) \<in> set (bus md').
         \<forall>field \<in> {''phi_from'', ''phi_to'', ''phi_loss_from'', ''phi_loss_to''}.
           (\<exists>r. d field = Some (Row r)) \<and> (\<forall>k. row_entry d field k \<noteq> Some 0)"
  proof -
    have "(\<exists>r. d field = Some (Row r)) \<and> (\<forall>k. row_entry d field k \<noteq> Some 0)"
      if nd: "(n, d) \<in> set (bus md')"
        and f: "field \<in> {''phi_from'', ''phi_to'', ''phi_loss_from'', ''phi_loss_to''}"
      for n d field
    proof -
    from nd obtain idx pf pt plf plt where
      "d ''phi_from'' = Some (Row (sparse_row (map fst (branch md)) pf idx))"
      "d ''phi_to'' = Some (Row (sparse_row (map fst (branch md)) pt idx))"
      "d ''phi_loss_from'' = Some (Row (sparse_row (map fst (branch md)) plf idx))"
      "d ''phi_loss_to'' = Some (Row (sparse_row (map fst (branch md)) plt idx))"
      using create_dicts_of_ptdf_losses_bus [OF h] by blast
    with f obtain M where "d field = Some (Row (sparse_row (map fst (branch md)) M idx))"
      by auto
    then show "(\<exists>r. d field = Some (Row r)) \<and> (\<forall>k. row_entry d field k \<noteq> Some 0)"
      using sparse_row_entry by blast
    qed
    then show ?thesis by fast
  qed
  show "\<forall>(n, d) \<in> set (branch md'). \<forall>field \<in> {''ptdf_r'', ''ldf''}.
           \<forall>b \<in> set (map fst (bus md')). row_entry d field b \<noteq> None"
  proof -
    have "row_entry d field b' \<noteq> None"
      if nd: "(n, d) \<in> set (branch md')" and f: "field \<in> {''ptdf_r'', ''ldf''}"
        and b: "b' \<in> set (map fst (bus md'))" for n d field b'
    proof -
    from nd obtain idx P L where
      "d ''ptdf_r'' = Some (Row (dense_row (map fst (bus md)) P idx))"
      "d ''ldf'' = Some (Row (dense_row (map fst (bus md)) L idx))"
      using create_dicts_of_ptdf_losses_branch [OF h] by blast
    with f obtain M where "d field = Some (Row (dense_row (map fst (bus md)) M idx))"
      by auto
    moreover from b have "b' \<in> set (map fst (bus md))"
      using create_dicts_of_ptdf_losses_names [OF h] by simp
    ultimately show "row_entry d field b' \<noteq> None"
      by (rule dense_row_entry)
    qed
    then show ?thesis by fast
  qed
next
  assume h: "create_dicts_of_ptdf tx md bp = Inr md''"
  show "\<forall>(n, d) \<in> set (bus md''). \<forall>field \<in> {''phi_from'', ''phi_to''}.
           (\<exists>r. d field = Some (Row r)) \<and> (\<forall>k. row_entry d field k \<noteq> Some 0)"
  proof -
    have "(\<exists>r. d field = Some (Row r)) \<and> (\<forall>k. row_entry d field k \<noteq> Some 0)"
      if nd: "(n, d) \<in> set (bus md'')" and f: "field \<in> {''phi_from'', ''phi_to''}"
      for n d field
    proof -
    from nd obtain idx pf pt where
      "d ''phi_from'' = Some (Row (sparse_row (map fst (branch md)) pf idx))"
      "d ''phi_to'' = Some (Row (sparse_row (map fst (branch md)) pt idx))"
      using create_dicts_of_ptdf_bus [OF h] by blast
    with f obtain M where "d field = Some (Row (sparse_row (map fst (branch md)) M idx))"
      by auto
    then show "(\<exists>r. d field = Some (Row r)) \<and> (\<forall>k. row_entry d field k \<noteq> Some 0)"
      using sparse_row_entry by blast
    qed
    then show ?thesis by fast
  qed
  show "\<forall>(n, d) \<in> set (branch md''). \<forall>b \<in> set (map fst (bus md'')).
           row_entry d ''ptdf'' b \<noteq> None"
  proof -
    have "row_entry d ''ptdf'' b' \<noteq> None"
      if nd: "(n, d) \<in> set (branch md'')" and b: "b' \<in> set (map fst (bus md''))" for n d b'
    proof -
    from nd obtain idx P where
      "d ''ptdf'' = Some (Row (dense_row (map fst (bus md)) P idx))"
      using create_dicts_of_ptdf_branch [OF h] by blast
    moreover from b have "b' \<in> set (map fst (bus md))"
      using create_dicts_of_ptdf_names [OF h] by simp
    ultimately show "row_entry d ''ptdf'' b' \<noteq> None"
      by (rule dense_row_entry)
    qed
    then show ?thesis by fast
  qed
qed

theorem phi_rows_sparse_ptdf_rows_dense_witness:
  "create_dicts_of_ptdf_losses ex_tx ex_md SOLUTION = Inr ex_md_ptdf
   \<and> ex_bus_ptdf ! 0 \<in> set (bus ex_md_ptdf)
   \<and> row_entry (snd (ex_bus_ptdf ! 0)) ''phi_to'' ''k1'' \<noteq> Some 0
   \<and> ex_branch_ptdf ! 0 \<in> set (branch ex_md_ptdf)
   \<and> ''b1'' \<in> set (map fst (bus ex_md_ptdf))
   \<and> row_entry (snd (ex_branch_ptdf ! 0)) ''ptdf_r'' ''b1'' \<noteq> None
   \<and> (\<exists>md''. create_dicts_of_ptdf ex_tx ex_md FLATSTART = Inr md'' \<and> bus md'' \<noteq> []
         \<and> row_entry (snd (hd (bus md''))) ''phi_from'' ''k1'' \<noteq> Some 0)"
proof -
  have h1: "create_dicts_of_ptdf_losses ex_tx ex_md SOLUTION = Inr ex_md_ptdf"
    by (rule ex_create_dicts_of_ptdf_losses)
  have "system ex_md ''reference_bus'' = Some (Str ''b1'')"
    by (simp add: ex_md_def)
  then obtain md'' where h2: "create_dicts_of_ptdf ex_tx ex_md FLATSTART = Inr md''"
    by (cases "calculate_phi_constant ex_tx ex_md PTDF")
       (simp add: create_dicts_of_ptdf_def Let_def)
  have m1: "ex_bus_ptdf ! 0 \<in> set (bus ex_md_ptdf)"
    and m2: "ex_branch_ptdf ! 0 \<in> set (branch ex_md_ptdf)"
    and m3: "''b1'' \<in> set (map fst (bus ex_md_ptdf))"
    by (simp_all add: ex_md_ptdf_def ex_bus_ptdf_def ex_branch_ptdf_def)
  have "map fst (bus md'') = map fst (bus ex_md)"
    using h2 by (rule create_dicts_of_ptdf_names)
  then have m4: "bus md'' \<noteq> []"
    by (auto simp: ex_md_def)
  then have m5: "hd (bus md'') \<in> set (bus md'')"
    by simp
  note t1 = phi_rows_sparse_ptdf_rows_dense [of ex_tx ex_md SOLUTION ex_md_ptdf,
      THEN conjunct1, THEN mp, OF h1]
  note t2 = phi_rows_sparse_ptdf_rows_dense [of ex_tx ex_md FLATSTART _ md'',
      THEN conjunct2, THEN mp, OF h2]
  have c1: "row_entry (snd (ex_bus_ptdf ! 0)) ''phi_to'' ''k1'' \<noteq> Some 0"
    using bspec [OF t1 [THEN conjunct1] m1] by (simp add: case_prod_beta)
  have c2: "row_entry (snd (ex_branch_ptdf ! 0)) ''ptdf_r'' ''b1'' \<noteq> None"
  proof -
    have f: "''ptdf_r'' \<in> {''ptdf_r'', ''ldf''}" by simp
    show ?thesis
      using bspec [OF bspec [OF bspec [OF t1 [THEN conjunct2] m2, unfolded case_prod_beta] f] m3] .
  qed
  have c3: "row_entry (snd (hd (bus md''))) ''phi_from'' ''k1'' \<noteq> Some 0"
    using bspec [OF t2 [THEN conjunct1] m5] by (simp add: case_prod_beta)
  from h1 h2 m1 m2 m3 m4 c1 c2 c3 show ?thesis
    by blast
qed

section \<open>Theorems on the extraction of the results\<close>

lemma bnd_Inr: "(bnd x f = Inr y) = (\<exists>a. x = Inr a \<and> f a = Inr y)"
  by (cases x) (simp_all add: bnd_def)

lemma bnd_Inl_Inl: "bnd (Inl e) f = Inl e"
  by (simp add: bnd_def)

lemma bnd_Inr_Inr: "bnd (Inr a) f = f a"
  by (simp add: bnd_def)

lemma for_items_names: "for_items f xs = Inr ys \<Longrightarrow> map fst ys = map fst xs"
proof (induction xs arbitrary: ys)
  case Nil
  then show ?case by simp
next
  case (Cons x xs)
  obtain n d where x: "x = (n, d)" by (cases x)
  from Cons.prems x obtain d' rest where
    "f n d = Inr d'" "for_items f xs = Inr rest" "ys = (n, d') # rest"
    by (auto simp: bnd_Inr)
  with Cons.IH [of rest] x show ?case by simp
qed

lemma for_items_mem:
  "for_items f xs = Inr ys \<Longrightarrow> (n, d') \<in> set ys \<Longrightarrow> \<exists>d. (n, d) \<in> set xs \<and> f n d = Inr d'"
proof (induction xs arbitrary: ys)
  case Nil
  then show ?case by simp
next
  case (Cons x xs)
  obtain n0 d0 where x: "x = (n0, d0)" by (cases x)
  from Cons.prems(1) x obtain d1 rest where
    r: "f n0 d0 = Inr d1" "for_items f xs = Inr rest" "ys = (n0, d1) # rest"
    by (auto simp: bnd_Inr)
  show ?case
  proof (cases "(n, d') = (n0, d1)")
    case True
    with r x show ?thesis by auto
  next
    case False
    with Cons.prems(2) r have "(n, d') \<in> set rest" by auto
    with Cons.IH [OF r(2)] show ?thesis by auto
  qed
qed

lemma row_item_entry: "row_item d field b = Inr x \<Longrightarrow> row_entry d field b = Some x"
  by (auto simp: row_item_def row_entry_def get_item_def bnd_Inr split: option.splits val.splits)

lemma dual_value_Some: "dual_value m c = Inr x \<Longrightarrow> dual m c = Some x"
  by (auto simp: dual_value_def split: option.splits)

lemma lmp_loop_sum:
  "lmp_loop m b ks acc = Inr r \<Longrightarrow>
   \<exists>terms. those (map (lmp_term m b) ks) = Some terms \<and> r = acc + sum_list terms"
proof (induction ks arbitrary: acc)
  case Nil
  then show ?case by simp
next
  case (Cons x ks)
  obtain k kd where x: "x = (k, kd)" by (cases x)
  from Cons.prems x obtain p dp l dl where
    s: "row_item kd ''ptdf_r'' b = Inr p" "dual_value m (''eq_pf_branch'', Some k) = Inr dp"
       "row_item kd ''ldf'' b = Inr l" "dual_value m (''eq_pfl_branch'', Some k) = Inr dl"
       "lmp_loop m b ks (acc + p * dp + l * dl) = Inr r"
    by (auto simp: bnd_Inr)
  from s(1-4) have t: "lmp_term m b (k, kd) = Some (p * dp + l * dl)"
    by (simp add: lmp_term_def row_item_entry dual_value_Some)
  from Cons.IH [OF s(5)] obtain terms where
    "those (map (lmp_term m b) ks) = Some terms" "r = acc + p * dp + l * dl + sum_list terms"
    by blast
  with t x show ?case by simp
qed

lemma save_results_bus:
  assumes "save_results gen m md = Inr md'" "(b, d') \<in> set (bus md')"
  shows "\<exists>d. (b, d) \<in> set (bus md) \<and> save_bus gen m (branch md) b d = Inr d'"
proof -
  from assms(1) have "for_items (save_bus gen m (branch md)) (bus md) = Inr (bus md')"
    by (auto simp: save_results_def bnd_Inr)
  then show ?thesis
    using assms(2) by (rule for_items_mem)
qed

lemma save_bus_ptdf_lmp:
  assumes "save_bus Ptdf_losses m branches b d = Inr d'"
  shows "\<exists>x. lmp_spec m branches b = Some x \<and> d' ''lmp'' = Some (Num x)"
proof -
  from assms obtain lam r where
    l: "dual_value m (''eq_p_balance'', None) = Inr lam" "lmp_loop m b branches lam = Inr r"
    and d': "d' ''lmp'' = Some (Num r)"
    by (auto simp: save_bus_def bnd_Inr Let_def)
  from l(2) obtain terms where
    "those (map (lmp_term m b) branches) = Some terms" "r = lam + sum_list terms"
    using lmp_loop_sum by blast
  with l(1) d' show ?thesis
    by (simp add: lmp_spec_def dual_value_Some)
qed

text \<open>
  C1: after an extraction for the PTDF-based model, the marginal price stored at every
  bus is the price that the specification states: the dual of the system-wide balance
  constraint plus the sum over the branches of the PTDF entry at the bus times the dual of
  the flow constraint plus the LDF entry at the bus times the dual of the loss constraint.
\<close>

theorem ptdf_lmp_is_spec:
  assumes "save_results Ptdf_losses m md = Inr md'" "(b, d') \<in> set (bus md')"
  shows "\<exists>x. lmp_spec m (branch md) b = Some x \<and> d' ''lmp'' = Some (Num x)"
proof -
  from assms obtain d where "save_bus Ptdf_losses m (branch md) b d = Inr d'"
    using save_results_bus by blast
  then show ?thesis
    by (rule save_bus_ptdf_lmp)
qed

lemma ex_dense_rows:
  "dense_row [''b1'', ''b2''] ex_ptdf 0 = [''b1'' \<mapsto> 0, ''b2'' \<mapsto> 1]"
  "dense_row [''b1'', ''b2''] ex_ldf 0 = [''b1'' \<mapsto> 0, ''b2'' \<mapsto> 1 / 100]"
  by (simp_all add: dense_row_def dict_comp_def assign_items_def ex_ptdf_def ex_ldf_def)

lemma ex_save_results_ptdf: "save_results Ptdf_losses ex_solved ex_md_ptdf = Inr ex_md_saved"
  by (simp add: save_results_def save_bus_def ex_solved_def ex_md_ptdf_def ex_md_def
      ex_bus_ptdf_def ex_branch_ptdf_def ex_md_saved_def var_value_def get_var_def bnd_def
      assign_value_def
      ex_var_def dual_value_def row_item_def get_item_def assign_items_def ex_dense_rows)

theorem ptdf_lmp_is_spec_witness:
  "save_results Ptdf_losses ex_solved ex_md_ptdf = Inr ex_md_saved
   \<and> ex_bus_saved_b2 \<in> set (bus ex_md_saved)
   \<and> lmp_spec ex_solved (branch ex_md_ptdf) ''b2'' = Some (101 / 10)
   \<and> snd ex_bus_saved_b2 ''lmp'' = Some (Num (101 / 10))"
proof -
  have m: "(''b2'', snd ex_bus_saved_b2) \<in> set (bus ex_md_saved)"
    by (simp add: ex_md_saved_def ex_bus_saved_b2_def)
  have l: "snd ex_bus_saved_b2 ''lmp'' = Some (Num (101 / 10))"
    by (simp add: ex_bus_saved_b2_def)
  from ptdf_lmp_is_spec [OF ex_save_results_ptdf m] l
  have "lmp_spec ex_solved (branch ex_md_ptdf) ''b2'' = Some (101 / 10)"
    by auto
  with m l show ?thesis
    by (simp add: ex_save_results_ptdf ex_bus_saved_b2_def)
qed

lemma assign_value_Inr:
  "assign_value m v key k d = Inr d' \<Longrightarrow> \<exists>x. var_value m v k = Inr x \<and> d' = d(key \<mapsto> Num x)"
  by (auto simp: assign_value_def bnd_Inr)

lemma for_items_assign_written:
  assumes "for_items (assign_value m v key) xs = Inr ys" "(k, d') \<in> set ys"
  shows "written d' key (var_value m v k)"
proof -
  from for_items_mem [OF assms] obtain d where "assign_value m v key k d = Inr d'"
    by blast
  then obtain x where "var_value m v k = Inr x" "d' = d(key \<mapsto> Num x)"
    using assign_value_Inr by blast
  then show ?thesis
    by (simp add: written_def)
qed

lemma for_items_assign_names:
  "for_items (assign_value m v key) xs = Inr ys \<Longrightarrow>
   attribute_names ys = map (\<lambda>(k, d). (k, insert key (dom d))) xs"
proof (induction xs arbitrary: ys)
  case Nil
  then show ?case by (simp add: attribute_names_def)
next
  case (Cons x xs)
  obtain k d where x: "x = (k, d)" by (cases x)
  from Cons.prems x obtain d1 rest where
    r: "assign_value m v key k d = Inr d1" "for_items (assign_value m v key) xs = Inr rest"
       "ys = (k, d1) # rest"
    by (auto simp: bnd_Inr)
  from r(1) obtain y where "d1 = d(key \<mapsto> Num y)"
    using assign_value_Inr by blast
  with Cons.IH [OF r(2)] r(3) x show ?case
    by (simp add: attribute_names_def)
qed

lemma save_bus_written:
  assumes "save_bus gen m branches b d = Inr d'"
  shows "written d' ''pl'' (var_value m ''pl'' b) \<and> d' ''qlmp'' = None
         \<and> (case gen of
                Btheta_losses \<Rightarrow>
                  written d' ''lmp'' (dual_value m (''eq_p_balance'', Some b))
                  \<and> written d' ''va'' (var_value m ''va'' b)
              | Ptdf_losses \<Rightarrow>
                  lmp_spec m branches b \<noteq> None
                  \<and> d' ''lmp'' = map_option Num (lmp_spec m branches b)
              | Other_generator f \<Rightarrow> True)"
proof (cases gen)
  case Btheta_losses
  with assms show ?thesis
    by (auto simp: save_bus_def bnd_Inr Let_def written_def)
next
  case Ptdf_losses
  with assms obtain x where "lmp_spec m branches b = Some x" "d' ''lmp'' = Some (Num x)"
    using save_bus_ptdf_lmp by blast
  moreover from assms Ptdf_losses
  have "written d' ''pl'' (var_value m ''pl'' b) \<and> d' ''qlmp'' = None"
    by (auto simp: save_bus_def bnd_Inr Let_def written_def)
  ultimately show ?thesis
    using Ptdf_losses by simp
next
  case (Other_generator f)
  with assms show ?thesis
    by (auto simp: save_bus_def bnd_Inr Let_def written_def)
qed

lemma save_results_written:
  assumes "save_results gen m md = Inr md'"
  shows "results_written gen m md md'"
proof -
  from assms obtain c gens buses branches where
    c: "obj_value m = Some c"
    and g: "for_items (assign_value m ''pg'' ''pg'') (generator md) = Inr gens"
    and b: "for_items (save_bus gen m (branch md)) (bus md) = Inr buses"
    and k: "for_items (assign_value m ''pf'' ''pf'') (branch md) = Inr branches"
    and md': "md' = md\<lparr>system := (system md)(''total_cost'' \<mapsto> Num c),
                       generator := gens, bus := buses, branch := branches\<rparr>"
    by (auto simp: save_results_def bnd_Inr split: option.splits)
  have 1: "obj_value m \<noteq> None \<and> system md' ''total_cost'' = map_option Num (obj_value m)"
    using c md' by simp
  have 2: "\<forall>(g, d) \<in> set (generator md'). written d ''pg'' (var_value m ''pg'' g)"
    using for_items_assign_written [OF g] md' by auto
  have 3: "\<forall>(b, d) \<in> set (bus md').
             written d ''pl'' (var_value m ''pl'' b) \<and> d ''qlmp'' = None
             \<and> (case gen of
                    Btheta_losses \<Rightarrow>
                      written d ''lmp'' (dual_value m (''eq_p_balance'', Some b))
                      \<and> written d ''va'' (var_value m ''va'' b)
                  | Ptdf_losses \<Rightarrow>
                      lmp_spec m (branch md) b \<noteq> None
                      \<and> d ''lmp'' = map_option Num (lmp_spec m (branch md) b)
                  | Other_generator f \<Rightarrow> True)"
  proof -
    have "written d ''pl'' (var_value m ''pl'' b) \<and> d ''qlmp'' = None
             \<and> (case gen of
                    Btheta_losses \<Rightarrow>
                      written d ''lmp'' (dual_value m (''eq_p_balance'', Some b))
                      \<and> written d ''va'' (var_value m ''va'' b)
                  | Ptdf_losses \<Rightarrow>
                      lmp_spec m (branch md) b \<noteq> None
                      \<and> d ''lmp'' = map_option Num (lmp_spec m (branch md) b)
                  | Other_generator f \<Rightarrow> True)"
      if "(b, d) \<in> set (bus md')" for b d
    proof -
      from that md' have "(b, d) \<in> set buses" by simp
      with for_items_mem [OF b] obtain d0 where "save_bus gen m (branch md) b d0 = Inr d"
        by blast
      then show ?thesis by (rule save_bus_written)
    qed
    then show ?thesis by fast
  qed
  have 4: "\<forall>(k, d) \<in> set (branch md'). written d ''pf'' (var_value m ''pf'' k)"
    using for_items_assign_written [OF k] md' by auto
  have 5: "attribute_names (branch md') = map (\<lambda>(k, d). (k, insert ''pf'' (dom d))) (branch md)"
    using for_items_assign_names [OF k] md' by simp
  from 1 2 3 4 5 show ?thesis
    unfolding results_written_def by blast
qed

section \<open>Theorems on the solve driver\<close>

lemma solve_dcopf_losses_Inr:
  assumes "solve_dcopf_losses tx sx h model_data solver timelimit tee lab opts gen rm rr slack
             = (Inr (a, om, ores), h')"
  shows "\<exists>m h1 m' res md'.
           run_generator tx gen h model_data slack = (Inr (m, a), h1)
           \<and> solve_model sx (m\<lparr>dual := Map.empty\<rparr>) solver (Some 0.001) timelimit tee lab opts
                 = Inr (m', res)
           \<and> save_results gen m' (h1 ! a) = Inr md'
           \<and> h' = h1[a := unscale_to_pu tx md']"
proof -
  obtain r h1 where g: "run_generator tx gen h model_data slack = (r, h1)"
    by (cases "run_generator tx gen h model_data slack")
  show ?thesis
  proof (cases r)
    case (Inl e)
    with assms g show ?thesis by (simp add: solve_dcopf_losses_def)
  next
    case (Inr p)
    obtain m md where p: "p = (m, md)" by (cases p)
    show ?thesis
    proof (cases "solve_model sx (m\<lparr>dual := Map.empty\<rparr>) solver (Some 0.001) timelimit tee lab opts")
      case (Inl e)
      with assms g Inr p show ?thesis by (simp add: solve_dcopf_losses_def)
    next
      case s: (Inr q)
      obtain m' res where q: "q = (m', res)" by (cases q)
      show ?thesis
      proof (cases "save_results gen m' (h1 ! md)")
        case (Inl e)
        with assms g Inr p s q show ?thesis by (simp add: solve_dcopf_losses_def)
      next
        case w: (Inr md')
        with assms g Inr p s q have "a = md" "h' = h1[md := unscale_to_pu tx md']"
          by (auto simp: solve_dcopf_losses_def)
        with g Inr p s q w show ?thesis by auto
      qed
    qed
  qed
qed

lemma attribute_names_mem:
  "attribute_names xs = attribute_names ys \<Longrightarrow> (n, d) \<in> set xs \<Longrightarrow>
   \<exists>d0. (n, d0) \<in> set ys \<and> dom d0 = dom d"
proof -
  assume e: "attribute_names xs = attribute_names ys" and m: "(n, d) \<in> set xs"
  from m have "(n, dom d) \<in> set (attribute_names xs)"
    by (force simp: attribute_names_def)
  with e have "(n, dom d) \<in> set (attribute_names ys)" by simp
  then show ?thesis
    by (auto simp: attribute_names_def)
qed

lemma solve_dcopf_losses_returned:
  assumes "solve_dcopf_losses tx sx h model_data solver timelimit tee lab opts gen rm rr slack
             = (Inr (a, om, ores), h')" "a < length h'"
  shows "\<exists>m h1 m' res md'.
           run_generator tx gen h model_data slack = (Inr (m, a), h1)
           \<and> solve_model sx (m\<lparr>dual := Map.empty\<rparr>) solver (Some 0.001) timelimit tee lab opts
                 = Inr (m', res)
           \<and> results_written gen m' (h1 ! a) md'
           \<and> h' ! a = unscale_to_pu tx md'"
proof -
  from solve_dcopf_losses_Inr [OF assms(1)] obtain m h1 m' res md' where
    r: "run_generator tx gen h model_data slack = (Inr (m, a), h1)"
       "solve_model sx (m\<lparr>dual := Map.empty\<rparr>) solver (Some 0.001) timelimit tee lab opts
          = Inr (m', res)"
       "save_results gen m' (h1 ! a) = Inr md'"
       "h' = h1[a := unscale_to_pu tx md']"
    by blast
  from r(4) assms(2) have "h' ! a = unscale_to_pu tx md'" by simp
  moreover from r(3) have "results_written gen m' (h1 ! a) md'"
    by (rule save_results_written)
  ultimately show ?thesis
    using r(1,2) by blast
qed

text \<open>
  C9: after a successful call, no bus of the returned snapshot has the attribute \<open>qlmp\<close>,
  for every model generator, when the conversion from per unit keeps the attribute names.
\<close>

theorem solve_removes_qlmp:
  assumes "solve_dcopf_losses tx sx h model_data solver timelimit tee lab opts gen rm rr slack
             = (Inr (a, om, ores), h')"
    and "a < length h'" and "keeps_names (unscale_to_pu tx)"
  shows "\<forall>(b, d) \<in> set (bus (h' ! a)). d ''qlmp'' = None"
proof -
  from solve_dcopf_losses_returned [OF assms(1,2)] obtain m' md0 md' where
    w: "results_written gen m' md0 md'" and r: "h' ! a = unscale_to_pu tx md'"
    by blast
  have "d ''qlmp'' = None" if "(b, d) \<in> set (bus (h' ! a))" for b d
  proof -
    from assms(3) have "attribute_names (bus (unscale_to_pu tx md')) = attribute_names (bus md')"
      by (simp add: keeps_names_def)
    with that r obtain d0 where d0: "(b, d0) \<in> set (bus md')" "dom d0 = dom d"
      using attribute_names_mem by metis
    from w d0(1) have "d0 ''qlmp'' = None"
      unfolding results_written_def by fast
    with d0(2) show ?thesis by (metis domIff)
  qed
  then show ?thesis by fast
qed

lemmas ex_run_defs =
  solve_dcopf_losses_def run_generator_def create_btheta_losses_dcopf_model_def
  clone_in_service_def btheta_losses_model_def solve_model_def set_options_def set_opt_def
  safe_termination_conditions_def save_results_def save_bus_def assign_value_def
  ex_solved_def ex_md_def ex_var_def ex_tx_def ex_sx_def ex_loads_def ex_pf_init_def
  var_value_def get_var_def bnd_def dual_value_def get_item_def
  declare_loads_def declare_angles_def declare_angle_differences_def fix_reference_bus_def
  declare_generation_def declare_flows_def declare_library_def
  declare_var_pl_def declare_var_va_def declare_var_dva_def declare_var_pg_def
  declare_var_pf_def declare_var_pfl_def declare_var_def add_component_def
  fix_all_def fix_var_def attr_items_def num_def num_map_def radians_def ConcreteModel_def
  List.map_filter_def

lemma ex_solve_btheta:
  "solve_dcopf_losses ex_tx ex_sx [ex_md] 0 (SolverStr ''ipopt'') None True False None
     Btheta_losses False False False = (Inr (1, None, None), [ex_md, ex_md_btheta_saved])"
  by (simp add: ex_run_defs ex_md_btheta_saved_def)

lemma ex_keeps_names: "keeps_names (unscale_to_pu ex_tx)"
  by (simp add: keeps_names_def ex_tx_def)

theorem solve_removes_qlmp_witness:
  "solve_dcopf_losses ex_tx ex_sx [ex_md] 0 (SolverStr ''ipopt'') None True False None
     Btheta_losses False False False = (Inr (1, None, None), [ex_md, ex_md_btheta_saved])
   \<and> 1 < length [ex_md, ex_md_btheta_saved]
   \<and> keeps_names (unscale_to_pu ex_tx)
   \<and> snd (hd (bus ex_md)) ''qlmp'' = Some (Num 7)
   \<and> hd (bus ex_md_btheta_saved) \<in> set (bus ([ex_md, ex_md_btheta_saved] ! 1))
   \<and> snd (hd (bus ex_md_btheta_saved)) ''qlmp'' = None"
proof -
  have l: "1 < length [ex_md, ex_md_btheta_saved]" by simp
  have m: "hd (bus ex_md_btheta_saved) \<in> set (bus ([ex_md, ex_md_btheta_saved] ! 1))"
    by (simp add: ex_md_btheta_saved_def)
  have "snd (hd (bus ex_md_btheta_saved)) ''qlmp'' = None"
    using bspec [OF solve_removes_qlmp [OF ex_solve_btheta l ex_keeps_names] m]
    by (simp add: case_prod_beta)
  moreover have "snd (hd (bus ex_md)) ''qlmp'' = Some (Num 7)"
    by (simp add: ex_md_def)
  ultimately show ?thesis
    using ex_solve_btheta l ex_keeps_names m by blast
qed

lemma written_dom: "written d key r \<Longrightarrow> key \<in> dom d"
  by (auto simp: written_def split: sum.splits)

lemma results_written_present:
  assumes w: "results_written gen m md0 md'" and k: "keeps_names u"
  shows "results_present gen (u md')"
proof -
  from k have e: "dom (system (u md')) = dom (system md')"
    "attribute_names (bus (u md')) = attribute_names (bus md')"
    "attribute_names (branch (u md')) = attribute_names (branch md')"
    "attribute_names (generator (u md')) = attribute_names (generator md')"
    by (simp_all add: keeps_names_def)
  from w have "''total_cost'' \<in> dom (system md')"
    unfolding results_written_def by auto
  with e(1) have 1: "''total_cost'' \<in> dom (system (u md'))" by simp
  have 2: "''pg'' \<in> dom d" if "(g, d) \<in> set (generator (u md'))" for g d
  proof -
    from that e(4) obtain d0 where d0: "(g, d0) \<in> set (generator md')" "dom d0 = dom d"
      using attribute_names_mem by metis
    from w d0(1) have "written d0 ''pg'' (var_value m ''pg'' g)"
      unfolding results_written_def by fast
    with d0(2) show ?thesis using written_dom by blast
  qed
  have 3: "''pf'' \<in> dom d" if "(g, d) \<in> set (branch (u md'))" for g d
  proof -
    from that e(3) obtain d0 where d0: "(g, d0) \<in> set (branch md')" "dom d0 = dom d"
      using attribute_names_mem by metis
    from w d0(1) have "written d0 ''pf'' (var_value m ''pf'' g)"
      unfolding results_written_def by fast
    with d0(2) show ?thesis using written_dom by blast
  qed
  have 4: "''pl'' \<in> dom d \<and>
       (case gen of Btheta_losses \<Rightarrow> ''lmp'' \<in> dom d \<and> ''va'' \<in> dom d
        | Ptdf_losses \<Rightarrow> ''lmp'' \<in> dom d | Other_generator f \<Rightarrow> True)"
    if "(b, d) \<in> set (bus (u md'))" for b d
  proof -
    from that e(2) obtain d0 where d0: "(b, d0) \<in> set (bus md')" "dom d0 = dom d"
      using attribute_names_mem by metis
    from w d0(1) have p: "written d0 ''pl'' (var_value m ''pl'' b)"
      and c: "case gen of
                Btheta_losses \<Rightarrow>
                  written d0 ''lmp'' (dual_value m (''eq_p_balance'', Some b))
                  \<and> written d0 ''va'' (var_value m ''va'' b)
              | Ptdf_losses \<Rightarrow>
                  lmp_spec m (branch md0) b \<noteq> None
                  \<and> d0 ''lmp'' = map_option Num (lmp_spec m (branch md0) b)
              | Other_generator f \<Rightarrow> True"
      unfolding results_written_def by fast+
    from p d0(2) have "''pl'' \<in> dom d" using written_dom by blast
    moreover from c d0(2) have "case gen of Btheta_losses \<Rightarrow> ''lmp'' \<in> dom d \<and> ''va'' \<in> dom d
        | Ptdf_losses \<Rightarrow> ''lmp'' \<in> dom d | Other_generator f \<Rightarrow> True"
      by (cases gen) (auto dest: written_dom)
    ultimately show ?thesis by simp
  qed
  from 1 2 3 4 show ?thesis
    unfolding results_present_def by fast
qed

text \<open>
  C5, as the specification states it, fails: after a successful solve of the example the
  branch \<open>k1\<close> of the returned snapshot has its three input attributes and the flow \<open>pf\<close>,
  and no loss result.
\<close>

theorem solve_writes_no_branch_loss:
  "solve_dcopf_losses ex_tx ex_sx [ex_md] 0 (SolverStr ''ipopt'') None True False None
     Btheta_losses False False False = (Inr (1, None, None), [ex_md, ex_md_btheta_saved])
   \<and> attribute_names (branch ex_md) = [(''k1'', {''from_bus'', ''to_bus'', ''rating_long_term''})]
   \<and> attribute_names (branch ([ex_md, ex_md_btheta_saved] ! 1))
       = [(''k1'', {''from_bus'', ''to_bus'', ''rating_long_term'', ''pf''})]"
proof -
  have "attribute_names (branch ex_md) = [(''k1'', {''from_bus'', ''to_bus'', ''rating_long_term''})]"
    by (auto simp: attribute_names_def ex_md_def)
  moreover have "attribute_names (branch ([ex_md, ex_md_btheta_saved] ! 1))
       = [(''k1'', {''from_bus'', ''to_bus'', ''rating_long_term'', ''pf''})]"
    by (auto simp: attribute_names_def ex_md_btheta_saved_def)
  ultimately show ?thesis
    using ex_solve_btheta by blast
qed

text \<open>
  C5, amended: after a successful solve the returned snapshot is the conversion from per
  unit of a snapshot that holds the results of the solved model: the total cost, the
  dispatch of every generator, the load of every bus, the marginal price of every bus for
  the two builders (and the angle for the angle-based one), and the flow of every branch,
  the only attribute that a branch receives. When the conversion keeps the attribute
  names, these results are in the returned snapshot.
\<close>

theorem solve_writes_results:
  assumes "solve_dcopf_losses tx sx h model_data solver timelimit tee lab opts gen rm rr slack
             = (Inr (a, om, ores), h')"
    and "a < length h'"
  shows "\<exists>m h1 m' res md'.
           run_generator tx gen h model_data slack = (Inr (m, a), h1)
           \<and> solve_model sx (m\<lparr>dual := Map.empty\<rparr>) solver (Some 0.001) timelimit tee lab opts
                 = Inr (m', res)
           \<and> results_written gen m' (h1 ! a) md'
           \<and> h' ! a = unscale_to_pu tx md'
           \<and> (keeps_names (unscale_to_pu tx) \<longrightarrow> results_present gen (h' ! a))"
proof -
  from solve_dcopf_losses_returned [OF assms] obtain m h1 m' res md' where
    r: "run_generator tx gen h model_data slack = (Inr (m, a), h1)"
       "solve_model sx (m\<lparr>dual := Map.empty\<rparr>) solver (Some 0.001) timelimit tee lab opts
          = Inr (m', res)"
       "results_written gen m' (h1 ! a) md'"
       "h' ! a = unscale_to_pu tx md'"
    by blast
  from r(3,4) have "keeps_names (unscale_to_pu tx) \<longrightarrow> results_present gen (h' ! a)"
    using results_written_present by metis
  with r show ?thesis by blast
qed

theorem solve_writes_results_witness:
  "solve_dcopf_losses ex_tx ex_sx [ex_md] 0 (SolverStr ''ipopt'') None True False None
     Btheta_losses False False False = (Inr (1, None, None), [ex_md, ex_md_btheta_saved])
   \<and> 1 < length [ex_md, ex_md_btheta_saved]
   \<and> keeps_names (unscale_to_pu ex_tx)
   \<and> results_present (Btheta_losses :: unit model_generator) ex_md_btheta_saved"
proof -
  have l: "1 < length [ex_md, ex_md_btheta_saved]" by simp
  from solve_writes_results [OF ex_solve_btheta l]
  have "keeps_names (unscale_to_pu ex_tx) \<longrightarrow>
          results_present (Btheta_losses :: unit model_generator) ([ex_md, ex_md_btheta_saved] ! 1)"
    by blast
  with ex_keeps_names have "results_present (Btheta_losses :: unit model_generator) ([ex_md, ex_md_btheta_saved] ! 1)"
    by (rule rev_mp)
  then show ?thesis
    using ex_solve_btheta l ex_keeps_names by simp
qed

section \<open>Theorems on the builders and the store\<close>






lemma make_vars_props:
  "make_vars kw ks = Inr vars \<Longrightarrow>
   dom vars = set ks \<and>
   (\<forall>k v. vars k = Some v \<longrightarrow>
      (\<forall>d. bounds kw = Some d \<longrightarrow> (\<exists>l u. d k = Some (l, u) \<and> lb v = Some l \<and> ub v = Some u)))"
proof (induction ks arbitrary: vars)
  case Nil
  then show ?case by auto
next
  case (Cons k ks)
  from Cons.prems obtain l u rest where
    b: "(case bounds kw of
           None \<Rightarrow> Inr (None, None)
         | Some d \<Rightarrow> (case d k of None \<Rightarrow> Inl (KeyError k) | Some (l, u) \<Rightarrow> Inr (Some l, Some u)))
        = Inr (l, u)"
    and r: "make_vars kw ks = Inr rest"
    and v: "vars = rest(k \<mapsto> \<lparr>pv = (case initialize kw of None \<Rightarrow> None | Some i \<Rightarrow> i k),
                               lb = l, ub = u, fixed = False\<rparr>)"
    by (auto simp: bnd_Inr)
  from Cons.IH [OF r] have IH: "dom rest = set ks"
    "\<And>k v d. rest k = Some v \<Longrightarrow> bounds kw = Some d \<Longrightarrow>
       \<exists>l u. d k = Some (l, u) \<and> lb v = Some l \<and> ub v = Some u"
    by blast+
  have new: "\<exists>l' u'. d k = Some (l', u') \<and> l = Some l' \<and> u = Some u'" if "bounds kw = Some d" for d
    using b that by (auto split: option.splits)
  show ?case
  proof (intro conjI allI impI)
    show "dom vars = set (k # ks)"
      using v IH(1) by auto
  next
    fix k' v' d
    assume a: "vars k' = Some v'" "bounds kw = Some d"
    show "\<exists>l u. d k' = Some (l, u) \<and> lb v' = Some l \<and> ub v' = Some u"
    proof (cases "k' = k")
      case True
      with a v new [OF a(2)] show ?thesis by auto
    next
      case False
      with a v have "rest k' = Some v'" by simp
      then show ?thesis using a(2) by (rule IH(2))
    qed
  qed
qed

lemma add_component_Inr:
  "add_component n c m = Inr m' \<Longrightarrow>
   components m n = None \<and> m' = m\<lparr>components := (components m)(n \<mapsto> c)\<rparr>"
  by (auto simp: add_component_def split: if_splits)

lemma declare_var_Inr:
  assumes "declare_var v m idx kw = Inr m'"
  shows "\<exists>vars. make_vars kw idx = Inr vars \<and> components m' v = Some (Var vars)
           \<and> (\<forall>n c. components m n = Some c \<longrightarrow> components m' n = Some c)"
proof -
  from assms obtain m1 vars where
    1: "add_component (''_var_'' @ v @ ''_index_set'') (IndexSet idx) m = Inr m1"
    and 2: "make_vars kw idx = Inr vars"
    and 3: "add_component v (Var vars) m1 = Inr m'"
    by (auto simp: declare_var_def bnd_Inr)
  from add_component_Inr [OF 1] add_component_Inr [OF 3]
  have c: "components m (''_var_'' @ v @ ''_index_set'') = None"
    "components m1 = (components m)(''_var_'' @ v @ ''_index_set'' \<mapsto> IndexSet idx)"
    "components m1 v = None"
    "components m' = (components m1)(v \<mapsto> Var vars)"
    by auto
  have "components m' n = Some c'" if "components m n = Some c'" for n c'
  proof -
    from that c(1) have "n \<noteq> ''_var_'' @ v @ ''_index_set''" by auto
    with that c(2) have "components m1 n = Some c'" by simp
    moreover from this c(3) have "n \<noteq> v" by auto
    ultimately show ?thesis using c(4) by simp
  qed
  with 2 c(4) show ?thesis by auto
qed

lemma declare_var_keeps:
  "declare_var v m idx kw = Inr m' \<Longrightarrow> components m n = Some c \<Longrightarrow> components m' n = Some c"
  using declare_var_Inr by blast

lemma declare_generation_keeps:
  "declare_generation md m = Inr m' \<Longrightarrow> components m n = Some c \<Longrightarrow> components m' n = Some c"
  by (auto simp: declare_generation_def declare_var_pg_def bnd_Inr dest: declare_var_keeps)

lemma declare_flows_keeps:
  "declare_flows tx ab md m = Inr m' \<Longrightarrow> components m n = Some c \<Longrightarrow> components m' n = Some c"
  by (auto simp: declare_flows_def declare_var_pf_def declare_var_pfl_def bnd_Inr
      dest!: declare_var_keeps)

lemma declare_library_keeps:
  "declare_library tx ab slack md m = Inr m' \<Longrightarrow> components m' = components m"
  by (auto simp: declare_library_def bnd_Inr)

lemma declare_angle_differences_keeps:
  "declare_angle_differences md m = Inr m' \<Longrightarrow> components m n = Some c \<Longrightarrow> components m' n = Some c"
  by (auto simp: declare_angle_differences_def declare_var_dva_def dest: declare_var_keeps)

lemma declare_angles_Inr:
  assumes "declare_angles md m = Inr m'"
  shows "\<exists>vars. components m' ''va'' = Some (Var vars) \<and> dom vars = set (map fst (bus md))
           \<and> (\<forall>b v. vars b = Some v \<longrightarrow> lb v = Some (- pi) \<and> ub v = Some pi)"
proof -
  from assms obtain bus_va where
    d: "declare_var ''va'' m (map fst (bus md))
          \<lparr>initialize = Some (num_map bus_va),
           bounds = Some (map_of (map (\<lambda>(k, v). (k, (- pi, pi))) bus_va))\<rparr> = Inr m'"
    by (auto simp: declare_angles_def declare_var_va_def bnd_Inr)
  let ?kw = "\<lparr>initialize = Some (num_map bus_va),
              bounds = Some (map_of (map (\<lambda>(k, v). (k, (- pi, pi))) bus_va))\<rparr>"
  from declare_var_Inr [OF d] obtain vars where
    v: "make_vars ?kw (map fst (bus md)) = Inr vars" "components m' ''va'' = Some (Var vars)"
    by blast
  from make_vars_props [OF v(1)] have p: "dom vars = set (map fst (bus md))"
    "\<And>k x. vars k = Some x \<Longrightarrow>
       \<exists>l u. map_of (map (\<lambda>(k, v). (k, (- pi, pi))) bus_va) k = Some (l, u)
             \<and> lb x = Some l \<and> ub x = Some u"
    by auto
  have "lb x = Some (- pi) \<and> ub x = Some pi" if "vars k = Some x" for k x
  proof -
    from p(2) [OF that] obtain l u where
      lu: "map_of (map (\<lambda>(k, v). (k, (- pi, pi))) bus_va) k = Some (l, u)"
        "lb x = Some l" "ub x = Some u"
      by blast
    from map_of_SomeD [OF lu(1)] have "l = - pi \<and> u = pi" by auto
    with lu show ?thesis by simp
  qed
  with v(2) p(1) show ?thesis by blast
qed

lemma fix_reference_bus_Inr:
  assumes "fix_reference_bus md m = Inr m'"
  shows "\<exists>r a vars v. system md ''reference_bus'' = Some (Str r)
           \<and> system md ''reference_bus_angle'' = Some (Num a)
           \<and> components m ''va'' = Some (Var vars) \<and> vars r = Some v
           \<and> components m' ''va'' = Some (Var (vars(r \<mapsto> v\<lparr>pv := Some (radians a), fixed := True\<rparr>)))"
  using assms
  by (auto simp: fix_reference_bus_def fix_var_def get_var_def get_item_def num_def bnd_Inr
      split: option.splits val.splits component.splits)

lemma btheta_losses_model_va:
  assumes "btheta_losses_model tx slack md = Inr m"
  shows "\<exists>vars. components m ''va'' = Some (Var vars)
           \<and> dom vars = set (map fst (bus md))
           \<and> (\<forall>b v. vars b = Some v \<longrightarrow> lb v = Some (- pi) \<and> ub v = Some pi)
           \<and> (\<exists>r a. system md ''reference_bus'' = Some (Str r)
                 \<and> system md ''reference_bus_angle'' = Some (Num a)
                 \<and> fixed_angle m r = Some (radians a))"
proof -
  from assms obtain m1 m2 m3 m4 m5 m6 where
    s: "declare_angles md m1 = Inr m2" "declare_angle_differences md m2 = Inr m3"
       "fix_reference_bus md m3 = Inr m4" "declare_generation md m4 = Inr m5"
       "declare_flows tx True md m5 = Inr m6" "declare_library tx True slack md m6 = Inr m"
    by (auto simp: btheta_losses_model_def bnd_Inr)
  from declare_angles_Inr [OF s(1)] obtain vars0 where
    v0: "components m2 ''va'' = Some (Var vars0)" "dom vars0 = set (map fst (bus md))"
        "\<And>b v. vars0 b = Some v \<Longrightarrow> lb v = Some (- pi) \<and> ub v = Some pi"
    by blast
  from v0(1) have m3: "components m3 ''va'' = Some (Var vars0)"
    using declare_angle_differences_keeps [OF s(2)] by blast
  from fix_reference_bus_Inr [OF s(3)] m3 obtain r a v where
    f: "system md ''reference_bus'' = Some (Str r)"
       "system md ''reference_bus_angle'' = Some (Num a)"
       "vars0 r = Some v"
       "components m4 ''va'' = Some (Var (vars0(r \<mapsto> v\<lparr>pv := Some (radians a), fixed := True\<rparr>)))"
    by auto
  let ?vars = "vars0(r \<mapsto> v\<lparr>pv := Some (radians a), fixed := True\<rparr>)"
  from f(4) have "components m5 ''va'' = Some (Var ?vars)"
    using declare_generation_keeps [OF s(4)] by blast
  then have "components m6 ''va'' = Some (Var ?vars)"
    using declare_flows_keeps [OF s(5)] by blast
  then have c: "components m ''va'' = Some (Var ?vars)"
    using declare_library_keeps [OF s(6)] by simp
  have d: "dom ?vars = set (map fst (bus md))"
    using v0(2) f(3) by auto
  have b: "lb x = Some (- pi) \<and> ub x = Some pi" if "?vars b = Some x" for b x
  proof (cases "b = r")
    case True
    with that have "x = v\<lparr>pv := Some (radians a), fixed := True\<rparr>" by simp
    with v0(3) [OF f(3)] show ?thesis by simp
  next
    case False
    with that have "vars0 b = Some x" by simp
    then show ?thesis by (rule v0(3))
  qed
  have "fixed_angle m r = Some (radians a)"
    using c by (simp add: fixed_angle_def)
  with c d b f(1,2) show ?thesis by blast
qed

lemma create_btheta_losses_dcopf_model_Inr:
  assumes "create_btheta_losses_dcopf_model tx h model_data slack = (Inr (m, md), h')"
  shows "btheta_losses_model tx slack (h' ! md) = Inr m"
  using assms
  by (auto simp: create_btheta_losses_dcopf_model_def clone_in_service_def Let_def
      split: sum.splits)

text \<open>
  C6, as the specification states it, fails: with a reference-bus angle of 30 configured
  in the example, the angle variable of the reference bus is fixed at \<open>pi / 6\<close>, not at 30.
\<close>

theorem reference_angle_fixed_in_radians:
  "system ex_md_ref30 ''reference_bus'' = Some (Str ''b1'')
   \<and> system ex_md_ref30 ''reference_bus_angle'' = Some (Num 30)
   \<and> built_fixed_angle (fst (create_btheta_losses_dcopf_model ex_tx [ex_md_ref30] 0 False)) ''b1''
       = Some (pi / 6)
   \<and> pi / 6 \<noteq> (30 :: real)"
proof -
  have "pi / 6 < (30 :: real)"
    using pi_less_4 by simp
  then have "pi / 6 \<noteq> (30 :: real)" by simp
  moreover have "built_fixed_angle (fst (create_btheta_losses_dcopf_model ex_tx [ex_md_ref30] 0 False)) ''b1''
       = Some (pi / 6)"
    by (simp add: ex_run_defs ex_md_ref30_def built_fixed_angle_def fixed_angle_def)
  ultimately show ?thesis
    by (simp add: ex_md_ref30_def ex_md_def)
qed

text \<open>
  C6, amended: in the model of the angle-based builder, every bus of the scaled clone has
  an angle variable, bounded by \<open>- pi\<close> and \<open>pi\<close>, and the angle variable of the reference
  bus is fixed at the configured reference-bus angle converted from degrees to radians.
\<close>

theorem btheta_angles_bounded_reference_fixed:
  assumes "create_btheta_losses_dcopf_model tx h model_data slack = (Inr (m, md), h')"
  shows "\<exists>vars. components m ''va'' = Some (Var vars)
           \<and> dom vars = set (map fst (bus (h' ! md)))
           \<and> (\<forall>b v. vars b = Some v \<longrightarrow> lb v = Some (- pi) \<and> ub v = Some pi)
           \<and> (\<exists>r a. system (h' ! md) ''reference_bus'' = Some (Str r)
                 \<and> system (h' ! md) ''reference_bus_angle'' = Some (Num a)
                 \<and> fixed_angle m r = Some (a * pi / 180))"
  using btheta_losses_model_va [OF create_btheta_losses_dcopf_model_Inr [OF assms]]
  by (simp add: radians_def)

theorem btheta_angles_bounded_reference_fixed_witness:
  "\<exists>m :: unit pmodel.
     create_btheta_losses_dcopf_model ex_tx [ex_md_ref30] 0 False
       = (Inr (m, 1), [ex_md_ref30, ex_md_ref30])
     \<and> fixed_angle m ''b1'' = Some (30 * pi / 180)
     \<and> (\<exists>vars. components m ''va'' = Some (Var vars) \<and> dom vars = {''b1'', ''b2''})"
proof -
  have "\<exists>r. create_btheta_losses_dcopf_model ex_tx [ex_md_ref30] 0 False
          = (Inr (r, 1), [ex_md_ref30, ex_md_ref30])"
    by (simp add: ex_run_defs ex_md_ref30_def)
  then obtain m :: "unit pmodel" where
    h: "create_btheta_losses_dcopf_model ex_tx [ex_md_ref30] 0 False
          = (Inr (m, 1), [ex_md_ref30, ex_md_ref30])" ..
  have s: "system ([ex_md_ref30, ex_md_ref30] ! 1) ''reference_bus'' = Some (Str ''b1'')"
    "system ([ex_md_ref30, ex_md_ref30] ! 1) ''reference_bus_angle'' = Some (Num 30)"
    "set (map fst (bus ([ex_md_ref30, ex_md_ref30] ! 1))) = {''b1'', ''b2''}"
    by (auto simp: ex_md_ref30_def ex_md_def)
  from btheta_angles_bounded_reference_fixed [OF h] obtain vars where
    v: "components m ''va'' = Some (Var vars)
        \<and> dom vars = set (map fst (bus ([ex_md_ref30, ex_md_ref30] ! 1)))
        \<and> (\<forall>b v. vars b = Some v \<longrightarrow> lb v = Some (- pi) \<and> ub v = Some pi)
        \<and> (\<exists>r a. system ([ex_md_ref30, ex_md_ref30] ! 1) ''reference_bus'' = Some (Str r)
              \<and> system ([ex_md_ref30, ex_md_ref30] ! 1) ''reference_bus_angle'' = Some (Num a)
              \<and> fixed_angle m r = Some (a * pi / 180))" ..
  from v have v1: "components m ''va'' = Some (Var vars)"
    and v2: "dom vars = set (map fst (bus ([ex_md_ref30, ex_md_ref30] ! 1)))"
    by (rule conjunct1, rule conjunct2 [THEN conjunct1])
  from v have "\<exists>r a. system ([ex_md_ref30, ex_md_ref30] ! 1) ''reference_bus'' = Some (Str r)
              \<and> system ([ex_md_ref30, ex_md_ref30] ! 1) ''reference_bus_angle'' = Some (Num a)
              \<and> fixed_angle m r = Some (a * pi / 180)"
    by (rule conjunct2 [THEN conjunct2, THEN conjunct2])
  then obtain r a where
    ra: "Some (Str ''b1'') = Some (Str r)" "Some (Num 30) = Some (Num a)"
        "fixed_angle m r = Some (a * pi / 180)"
    unfolding s(1,2) by (elim exE conjE)
  from ra have f: "fixed_angle m ''b1'' = Some (30 * pi / 180)" by simp
  from v1 v2 s(3) have
    c: "\<exists>vars. components m ''va'' = Some (Var vars) \<and> dom vars = {''b1'', ''b2''}"
    by simp
  from h f c show ?thesis
    by (intro exI [of _ m] conjI)
qed

end
